theory Spec2Isabelle
  imports Main "HOL-Library.Product_Lexorder"
begin

section \<open>Data model (src/models.py)\<close>

text \<open>
  A \<open>datetime\<close> is a naive Python datetime (no time zone): its calendar fields.
  Python compares two naive datetimes field by field, from the year down to the
  microsecond; \<open>datetime_lt\<close> is that comparison. A datetime object is always truthy,
  so \<open>if d\<close> on a \<open>datetime | None\<close> only asks whether it is present.
\<close>

record datetime =
  year :: nat
  month :: nat
  day :: nat
  hour :: nat
  minute :: nat
  second :: nat
  microsecond :: nat

definition datetime_key :: "datetime \<Rightarrow> nat \<times> nat \<times> nat \<times> nat \<times> nat \<times> nat \<times> nat" where
  "datetime_key d = (year d, month d, day d, hour d, minute d, second d, microsecond d)"

definition datetime_lt :: "datetime \<Rightarrow> datetime \<Rightarrow> bool" where
  "datetime_lt a b = (datetime_key a < datetime_key b)"

datatype EpisodeType = REGULAR | SPECIAL | CREDITS | TRAILER | PARODY | OTHER

record WatchedEpisode =
  episode_number :: int
  episode_type :: EpisodeType
  watched_at :: "datetime option"

definition is_special :: "WatchedEpisode \<Rightarrow> bool" where
  "is_special ep = (episode_type ep \<noteq> REGULAR)"

record AnimeRating =
  score :: int
  rated_at :: "datetime option"
  is_temporary :: bool

record MappedIds =
  tvdb_id :: "int option"
  imdb_id :: "string option"
  tmdb_show_id :: "int option"
  tmdb_movie_id :: "int option"
  tvdb_season :: int
  tvdb_epoffset :: int

text \<open>
  Python truth value of an optional integer and of an optional string: \<open>None\<close>, \<open>0\<close>
  and the empty string are false.
\<close>

definition truthy_int :: "int option \<Rightarrow> bool" where
  "truthy_int v = (case v of None \<Rightarrow> False | Some n \<Rightarrow> n \<noteq> 0)"

definition truthy_str :: "string option \<Rightarrow> bool" where
  "truthy_str v = (case v of None \<Rightarrow> False | Some s \<Rightarrow> s \<noteq> [])"

fun any :: "bool list \<Rightarrow> bool" where
  "any [] = False"
| "any (b # bs) = (if b then True else any bs)"

definition has_any_id :: "MappedIds \<Rightarrow> bool" where
  "has_any_id ids =
     any [truthy_int (tvdb_id ids), truthy_str (imdb_id ids),
          truthy_int (tmdb_show_id ids), truthy_int (tmdb_movie_id ids)]"

definition ids_is_movie :: "MappedIds \<Rightarrow> bool" where
  "ids_is_movie ids = (tmdb_movie_id ids \<noteq> None \<and> tvdb_id ids = None)"

datatype id_value = IntId int | StrId string

text \<open>
  \<open>get_trakt_ids\<close> builds a dict; the model keeps it as the list of its items in
  insertion order.
\<close>

definition get_trakt_ids :: "MappedIds \<Rightarrow> (string \<times> id_value) list" where
  "get_trakt_ids ids =
     (let d0 = [];
          d1 = (if truthy_int (tvdb_id ids) then d0 @ [(''tvdb'', IntId (the (tvdb_id ids)))] else d0);
          d2 = (if truthy_str (imdb_id ids) then d1 @ [(''imdb'', StrId (the (imdb_id ids)))] else d1)
      in if truthy_int (tmdb_movie_id ids) \<and> \<not> truthy_int (tvdb_id ids)
         then d2 @ [(''tmdb'', IntId (the (tmdb_movie_id ids)))]
         else if truthy_int (tmdb_show_id ids) \<and> \<not> truthy_int (tvdb_id ids)
         then d2 @ [(''tmdb'', IntId (the (tmdb_show_id ids)))]
         else d2)"

datatype AnimeType = UNKNOWN | TV | OVA | MOVIE | WEB | TV_SPECIAL

record AnimeEntry =
  anidb_id :: int
  title :: string
  title_english :: "string option"
  anime_type :: AnimeType
  total_episodes :: int
  total_specials :: int
  watched_episodes :: "WatchedEpisode list"
  rating :: "AnimeRating option"
  mapped_ids :: "MappedIds option"
  is_hentai :: bool

definition is_mapped :: "AnimeEntry \<Rightarrow> bool" where
  "is_mapped a =
     (case mapped_ids a of None \<Rightarrow> False | Some ids \<Rightarrow> has_any_id ids)"

text \<open>
  An episode of a Trakt entry is a dict with the keys \<open>season\<close> and \<open>episode\<close>, each
  holding a number or \<open>None\<close> (the fetcher fills them with \<open>dict.get\<close>). The fields
  \<open>title\<close>, \<open>ids\<close>, \<open>rating\<close>, \<open>rated_at\<close> and \<open>watched_episodes\<close> of \<open>TraktEntry\<close>
  carry the prefix \<open>trakt_\<close> here, since a record field is a constant of the theory
  and \<open>AnimeEntry\<close> and \<open>AnimeRating\<close> have fields of the same names.
\<close>

record TraktEpisode =
  season :: "int option"
  episode :: "int option"

record TraktEntry =
  trakt_id :: "int option"
  trakt_title :: "string option"
  trakt_ids :: "(string \<times> id_value) list"
  trakt_rating :: "int option"
  trakt_rated_at :: "datetime option"
  trakt_watched_episodes :: "TraktEpisode list"
  is_movie :: bool

record ConflictResolution =
  anime :: AnimeEntry
  trakt_entry :: "TraktEntry option"
  keep_anidb_rating :: bool
  rating_conflict :: bool
  episodes_to_sync :: "WatchedEpisode list"

definition is_new :: "ConflictResolution \<Rightarrow> bool" where
  "is_new r = (trakt_entry r = None)"

section \<open>Exceptions\<close>

text \<open>
  The exceptions the modelled code raises or lets through, each with its message.
  \<open>KeyboardInterrupt\<close> is the only one that is not a subclass of \<open>Exception\<close>.
  No handler of the modelled code tells a \<open>UnicodeDecodeError\<close> from the other
  exceptions it lets through, so its being a subclass of \<open>ValueError\<close> plays no part.
\<close>

datatype exn =
    TraktAPIError string int
  | HTTPError string
  | ValueError string
  | UnicodeDecodeError string
  | OverflowError string
  | OSError string
  | AttributeError string
  | TypeError string
  | RuntimeError string
  | RecursionError string
  | KeyboardInterrupt

text \<open>Messages put names between single or double quotes.\<close>

definition quoted :: "string \<Rightarrow> string" where
  "quoted s = [CHR 0x27] @ s @ [CHR 0x27]"

definition double_quoted :: "string \<Rightarrow> string" where
  "double_quoted s = [CHR 0x22] @ s @ [CHR 0x22]"

fun is_Exception :: "exn \<Rightarrow> bool" where
  "is_Exception KeyboardInterrupt = False"
| "is_Exception _ = True"

fun exn_str :: "exn \<Rightarrow> string" where
  "exn_str (TraktAPIError msg _) = msg"
| "exn_str (HTTPError msg) = msg"
| "exn_str (ValueError msg) = msg"
| "exn_str (UnicodeDecodeError msg) = msg"
| "exn_str (OverflowError msg) = msg"
| "exn_str (OSError msg) = msg"
| "exn_str (AttributeError msg) = msg"
| "exn_str (TypeError msg) = msg"
| "exn_str (RuntimeError msg) = msg"
| "exn_str (RecursionError msg) = msg"
| "exn_str KeyboardInterrupt = []"

section \<open>Episode mapping (src/id_mapper.py)\<close>

text \<open>
  \<open>map_episode_to_trakt\<close> is annotated to take a \<open>MappedIds\<close>, but the conflict
  resolver passes \<open>anime.mapped_ids\<close>, which may be \<open>None\<close>: reading \<open>tvdb_season\<close> of
  \<open>None\<close> raises \<open>AttributeError\<close>. A special episode returns before that read.
\<close>

definition map_episode_to_trakt ::
  "WatchedEpisode \<Rightarrow> MappedIds option \<Rightarrow> exn + (int \<times> int)" where
  "map_episode_to_trakt ep m_ids =
     (if is_special ep then Inr (0, episode_number ep)
      else case m_ids of
             None \<Rightarrow> Inl (AttributeError (quoted ''NoneType'' @ '' object has no attribute '' @
                                        quoted ''tvdb_season''))
           | Some ids \<Rightarrow> Inr (tvdb_season ids, episode_number ep + tvdb_epoffset ids))"

section \<open>Conflict resolution (src/trakt_data.py)\<close>

definition older_rating_wins :: "datetime option \<Rightarrow> datetime option \<Rightarrow> bool" where
  "older_rating_wins anidb_date trakt_date =
     (case (anidb_date, trakt_date) of
        (Some a, Some t) \<Rightarrow> datetime_lt a t
      | _ \<Rightarrow> anidb_date \<noteq> None)"

text \<open>The set \<open>existing_eps\<close> of (season, episode) pairs of the Trakt entry.\<close>

definition existing_eps :: "TraktEntry option \<Rightarrow> (int option \<times> int option) set" where
  "existing_eps te =
     (case te of
        None \<Rightarrow> {}
      | Some t \<Rightarrow> set (map (\<lambda>ep. (season ep, episode ep)) (trakt_watched_episodes t)))"

text \<open>
  The loop over \<open>anime.watched_episodes\<close>: \<open>acc\<close> is \<open>resolution.episodes_to_sync\<close>,
  appended to in place. An exception of the mapper leaves the loop.
\<close>

fun episodes_loop ::
  "MappedIds option \<Rightarrow> (int option \<times> int option) set \<Rightarrow> WatchedEpisode list \<Rightarrow>
   WatchedEpisode list \<Rightarrow> exn + WatchedEpisode list" where
  "episodes_loop m_ids existing [] acc = Inr acc"
| "episodes_loop m_ids existing (ep # eps) acc =
     (case map_episode_to_trakt ep m_ids of
        Inl e \<Rightarrow> Inl e
      | Inr (trakt_season, trakt_ep) \<Rightarrow>
          if (Some trakt_season, Some trakt_ep) \<notin> existing
          then episodes_loop m_ids existing eps (acc @ [ep])
          else episodes_loop m_ids existing eps acc)"

definition resolve_single :: "AnimeEntry \<Rightarrow> TraktEntry option \<Rightarrow> exn + ConflictResolution" where
  "resolve_single a te =
     (let resolution = \<lparr>anime = a, trakt_entry = te, keep_anidb_rating = True,
                         rating_conflict = False, episodes_to_sync = []\<rparr>;
          resolution =
            (case (rating a, te) of
               (Some r, Some t) \<Rightarrow>
                 if truthy_int (trakt_rating t)
                 then (let resolution = resolution\<lparr>rating_conflict := (Some (score r) \<noteq> trakt_rating t)\<rparr>
                       in if rating_conflict resolution
                          then resolution\<lparr>keep_anidb_rating :=
                                 older_rating_wins (rated_at r) (trakt_rated_at t)\<rparr>
                          else resolution)
                 else resolution\<lparr>keep_anidb_rating := True\<rparr>
             | (Some r, None) \<Rightarrow> resolution\<lparr>keep_anidb_rating := True\<rparr>
             | (None, _) \<Rightarrow> resolution)
      in if watched_episodes a \<noteq> []
         then (case episodes_loop (mapped_ids a) (existing_eps te) (watched_episodes a)
                     (episodes_to_sync resolution) of
                 Inl e \<Rightarrow> Inl e
               | Inr eps \<Rightarrow> Inr (resolution\<lparr>episodes_to_sync := eps\<rparr>))
         else Inr resolution)"


subsection \<open>The fetcher's caches and \<open>get_entry\<close>\<close>

text \<open>Python's \<open>str\<close> of an integer, used by the f-strings that build cache keys.\<close>

definition digit_char :: "nat \<Rightarrow> char" where
  "digit_char n = char_of (48 + n)"

fun str_nat :: "nat \<Rightarrow> string" where
  "str_nat n = (if n < 10 then [digit_char n] else str_nat (n div 10) @ [digit_char (n mod 10)])"

declare str_nat.simps [simp del]

definition str_int :: "int \<Rightarrow> string" where
  "str_int i = (if i < 0 then CHR ''-'' # str_nat (nat (- i)) else str_nat (nat i))"

text \<open>
  The values of the two caches \<open>_ratings\<close> and \<open>_watched\<close>, as \<open>_fetch_ratings\<close> and
  \<open>_fetch_watched\<close> build them: dicts with a fixed set of keys, each value possibly
  \<open>None\<close>.
\<close>

record RatingData =
  rd_rating :: "int option"
  rd_rated_at :: "datetime option"
  rd_trakt_id :: "int option"
  rd_title :: "string option"

record WatchedSeason =
  ws_number :: "int option"
  ws_episodes :: "int option list"

record WatchedData =
  wd_seasons :: "WatchedSeason list"
  wd_trakt_id :: "int option"
  wd_title :: "string option"

record TraktDataFetcher =
  ratings_cache :: "string \<rightharpoonup> RatingData"
  watched_cache :: "string \<rightharpoonup> WatchedData"

definition entry_key :: "MappedIds \<Rightarrow> string option" where
  "entry_key ids =
     (if ids_is_movie ids \<and> truthy_int (tmdb_movie_id ids)
      then Some (''movie_'' @ str_int (the (tmdb_movie_id ids)))
      else if truthy_int (tvdb_id ids)
      then Some (''show_'' @ str_int (the (tvdb_id ids)))
      else None)"

definition flatten_watched :: "WatchedData \<Rightarrow> TraktEpisode list" where
  "flatten_watched wd =
     concat (map (\<lambda>s. map (\<lambda>n. \<lparr>season = ws_number s, episode = n\<rparr>) (ws_episodes s))
                 (wd_seasons wd))"

definition get_entry :: "TraktDataFetcher \<Rightarrow> AnimeEntry \<Rightarrow> TraktEntry option" where
  "get_entry df a =
     (case mapped_ids a of
        None \<Rightarrow> None
      | Some ids \<Rightarrow>
          (case entry_key ids of
             None \<Rightarrow> None
           | Some key \<Rightarrow>
               (let rating_data = ratings_cache df key;
                    watched_data = watched_cache df key
                in if rating_data = None \<and> watched_data = None then None
                   else Some
                     \<lparr>trakt_id = (case rating_data of
                                    Some rd \<Rightarrow> rd_trakt_id rd
                                  | None \<Rightarrow> (case watched_data of
                                               Some wd \<Rightarrow> wd_trakt_id wd
                                             | None \<Rightarrow> Some 0)),
                      trakt_title = (case rating_data of
                                    Some rd \<Rightarrow> rd_title rd
                                  | None \<Rightarrow> (case watched_data of
                                               Some wd \<Rightarrow> wd_title wd
                                             | None \<Rightarrow> Some [])),
                      trakt_ids = get_trakt_ids ids,
                      trakt_rating = (case rating_data of Some rd \<Rightarrow> rd_rating rd | None \<Rightarrow> None),
                      trakt_rated_at = (case rating_data of Some rd \<Rightarrow> rd_rated_at rd | None \<Rightarrow> None),
                      trakt_watched_episodes =
                        (case watched_data of Some wd \<Rightarrow> flatten_watched wd | None \<Rightarrow> []),
                      is_movie = ids_is_movie ids\<rparr>)))"

subsection \<open>\<open>resolve\<close>\<close>

text \<open>
  The loop of \<open>resolve\<close> over \<open>anime_list\<close>; \<open>acc\<close> is the list \<open>resolutions\<close>. The
  data fetcher is optional. \<open>fetch\<close> stands for the effect of \<open>data_fetcher.fetch()\<close>
  on the caches (it reads the network, and swallows every \<open>Exception\<close> of a query).
\<close>

fun resolve_loop ::
  "TraktDataFetcher option \<Rightarrow> AnimeEntry list \<Rightarrow> ConflictResolution list \<Rightarrow>
   exn + ConflictResolution list" where
  "resolve_loop df [] acc = Inr acc"
| "resolve_loop df (a # as) acc =
     (if \<not> is_mapped a then resolve_loop df as acc
      else (let te = (case df of Some f \<Rightarrow> get_entry f a | None \<Rightarrow> None)
            in case resolve_single a te of
                 Inl e \<Rightarrow> Inl e
               | Inr resolution \<Rightarrow> resolve_loop df as (acc @ [resolution])))"

definition resolve ::
  "(TraktDataFetcher \<Rightarrow> TraktDataFetcher) \<Rightarrow> TraktDataFetcher option \<Rightarrow> AnimeEntry list \<Rightarrow>
   bool \<Rightarrow> exn + ConflictResolution list" where
  "resolve fetch df anime_list fetch_existing =
     (let df = (if fetch_existing then map_option fetch df else df)
      in resolve_loop df anime_list [])"


section \<open>JSON values and the Python operations applied to them\<close>

text \<open>
  What \<open>json.load\<close> and \<open>response.json()\<close> return, and what \<open>json.dump\<close> accepts:
  \<open>None\<close>, booleans, integers, strings, lists and dicts with string keys (a dict as
  the list of its items, keys distinct). Floating-point numbers are left out.
  The operations below are the ones the sync engine and the checkpoint loader apply
  to such values; applied to a value of the wrong type they raise, as in Python.
\<close>

datatype json =
    JNull
  | JBool bool
  | JInt int
  | JStr string
  | JList "json list"
  | JObj "(string \<times> json) list"

fun type_name :: "json \<Rightarrow> string" where
  "type_name JNull = ''NoneType''"
| "type_name (JBool _) = ''bool''"
| "type_name (JInt _) = ''int''"
| "type_name (JStr _) = ''str''"
| "type_name (JList _) = ''list''"
| "type_name (JObj _) = ''dict''"

definition no_attribute :: "json \<Rightarrow> string \<Rightarrow> exn" where
  "no_attribute v attr =
     AttributeError (quoted (type_name v) @ '' object has no attribute '' @ quoted attr)"

fun truthy :: "json \<Rightarrow> bool" where
  "truthy JNull = False"
| "truthy (JBool b) = b"
| "truthy (JInt n) = (n \<noteq> 0)"
| "truthy (JStr s) = (s \<noteq> [])"
| "truthy (JList xs) = (xs \<noteq> [])"
| "truthy (JObj kvs) = (kvs \<noteq> [])"

text \<open>\<open>v.get(key, default)\<close>: only a dict has the method.\<close>

fun dict_get :: "json \<Rightarrow> string \<Rightarrow> json \<Rightarrow> exn + json" where
  "dict_get (JObj kvs) k d = Inr (case map_of kvs k of None \<Rightarrow> d | Some v \<Rightarrow> v)"
| "dict_get v k d = Inl (no_attribute v ''get'')"

text \<open>
  \<open>a + b\<close>: integers and booleans add as integers, strings and lists concatenate
  with their like and refuse anything else in words of their own.
\<close>

fun int_like :: "json \<Rightarrow> int option" where
  "int_like (JInt n) = Some n"
| "int_like (JBool b) = Some (if b then 1 else 0)"
| "int_like _ = None"

definition unsupported_operand :: "string \<Rightarrow> json \<Rightarrow> json \<Rightarrow> exn" where
  "unsupported_operand op a b =
     TypeError (''unsupported operand type(s) for '' @ op @ '': '' @ quoted (type_name a) @
                '' and '' @ quoted (type_name b))"

definition cannot_concatenate :: "json \<Rightarrow> json \<Rightarrow> exn" where
  "cannot_concatenate a b =
     TypeError (''can only concatenate '' @ type_name a @ '' (not '' @
                double_quoted (type_name b) @ '') to '' @ type_name a)"

fun py_add :: "json \<Rightarrow> json \<Rightarrow> exn + json" where
  "py_add (JStr a) (JStr b) = Inr (JStr (a @ b))"
| "py_add (JList a) (JList b) = Inr (JList (a @ b))"
| "py_add (JStr a) b = Inl (cannot_concatenate (JStr a) b)"
| "py_add (JList a) b = Inl (cannot_concatenate (JList a) b)"
| "py_add a b =
     (case (int_like a, int_like b) of
        (Some m, Some n) \<Rightarrow> Inr (JInt (m + n))
      | _ \<Rightarrow> Inl (unsupported_operand ''+'' a b))"

text \<open>\<open>counter += v\<close> for an integer counter.\<close>

definition counter_add :: "int \<Rightarrow> json \<Rightarrow> exn + int" where
  "counter_add c v =
     (case int_like v of
        Some n \<Rightarrow> Inr (c + n)
      | None \<Rightarrow> Inl (unsupported_operand ''+='' (JInt c) v))"

fun py_len :: "json \<Rightarrow> exn + int" where
  "py_len (JStr s) = Inr (int (length s))"
| "py_len (JList xs) = Inr (int (length xs))"
| "py_len (JObj kvs) = Inr (int (length kvs))"
| "py_len v = Inl (TypeError (''object of type '' @ quoted (type_name v) @ '' has no len()''))"

text \<open>\<open>for x in v\<close>: the elements of a list, the characters of a string, the keys of a dict.\<close>

fun py_iter :: "json \<Rightarrow> exn + json list" where
  "py_iter (JList xs) = Inr xs"
| "py_iter (JStr s) = Inr (map (\<lambda>c. JStr [c]) s)"
| "py_iter (JObj kvs) = Inr (map (\<lambda>kv. JStr (fst kv)) kvs)"
| "py_iter v = Inl (TypeError (quoted (type_name v) @ '' object is not iterable''))"

definition and_then :: "exn + 'a \<Rightarrow> ('a \<Rightarrow> exn + 'b) \<Rightarrow> exn + 'b" where
  "and_then r f = (case r of Inl e \<Rightarrow> Inl e | Inr v \<Rightarrow> f v)"

section \<open>The Trakt client (src/trakt_client.py)\<close>

text \<open>
  The world outside the program: the outcome of each HTTP exchange, in the order the
  exchanges happen, and the trace of what the program did (requests sent, sleeps). The
  world is passed through every function that talks to Trakt or sleeps.

  An exchange ends with a response, with an \<open>httpx.HTTPError\<close>, or with the user's
  interrupt. Of a response the client reads the status code, the \<open>Retry-After\<close> header
  (absent, a value \<open>int()\<close> reads, or any other text), the text, and the body as
  JSON (\<open>response.json()\<close> raises a \<open>ValueError\<close> when the body is not JSON).
  Token refresh and the request headers are left out: the client is taken as holding a
  valid token. The clock is left out: \<open>_rate_limit\<close> sleeps for whatever is missing to
  the minimum interval, recorded as one event.

  \<open>time.sleep\<close> takes a number of seconds, here always an integer. A number beyond
  9223372036 in size does not convert to nanoseconds and raises \<open>OverflowError\<close>; a
  negative one raises \<open>ValueError\<close>; and the operating system refuses, with an \<open>OSError\<close>,
  a sleep that would end past the range of its clock. That last bound depends on the
  clock's reading: it is the field \<open>longest_sleep\<close> of the world.
\<close>

datatype http_method = GET | POST | PUT | DELETE

type_synonym payload = "(string \<times> json list) list"

record request =
  req_method :: http_method
  req_endpoint :: string
  req_json :: "payload option"

datatype retry_after_header = NoRetryAfter | RetryAfterInt int | RetryAfterText string

record http_response =
  status_code :: int
  retry_after :: retry_after_header
  response_text :: string
  json_body :: "string + json"

datatype http_outcome = Responded http_response | TransportError string | Interrupt

datatype event = Sent request | Slept int | RateLimit bool

record world =
  server :: "nat \<Rightarrow> http_outcome"
  served :: nat
  trace :: "event list"
  files :: "string \<rightharpoonup> json"
  longest_sleep :: int

definition sleep :: "int \<Rightarrow> world \<Rightarrow> exn + world" where
  "sleep secs w =
     (if secs < - 9223372036 \<or> 9223372036 < secs
      then Inl (OverflowError ''timestamp too large to convert to C _PyTime_t'')
      else if secs < 0 then Inl (ValueError ''sleep length must be non-negative'')
      else if longest_sleep w < secs then Inl (OSError ''[Errno 22] Invalid argument'')
      else Inr (w\<lparr>trace := trace w @ [Slept secs]\<rparr>))"

definition rate_limit :: "bool \<Rightarrow> world \<Rightarrow> world" where
  "rate_limit is_post w = w\<lparr>trace := trace w @ [RateLimit is_post]\<rparr>"

definition exchange :: "request \<Rightarrow> world \<Rightarrow> http_outcome \<times> world" where
  "exchange rq w = (server w (served w), w\<lparr>served := served w + 1, trace := trace w @ [Sent rq]\<rparr>)"

text \<open>\<open>int(response.headers.get("Retry-After", 60))\<close>\<close>

fun retry_after_seconds :: "retry_after_header \<Rightarrow> exn + int" where
  "retry_after_seconds NoRetryAfter = Inr 60"
| "retry_after_seconds (RetryAfterInt n) = Inr n"
| "retry_after_seconds (RetryAfterText s) =
     Inl (ValueError (''invalid literal for int() with base 10: '' @ quoted s))"

text \<open>
  \<open>_request\<close>: the loop \<open>for attempt in range(retries)\<close>, and after it
  \<open>raise TraktAPIError("Max retries exceeded")\<close>. A \<open>TraktAPIError\<close> made without a
  status code has \<open>status_code = 0\<close>.
\<close>

function request_loop ::
  "request \<Rightarrow> bool \<Rightarrow> int \<Rightarrow> int \<Rightarrow> world \<Rightarrow> (exn + json) \<times> world" where
  "request_loop rq is_post retries attempt w =
     (if retries \<le> attempt then (Inl (TraktAPIError ''Max retries exceeded'' 0), w)
      else
        (let w1 = rate_limit is_post w in
         case exchange rq w1 of
           (Interrupt, w2) \<Rightarrow> (Inl KeyboardInterrupt, w2)
         | (TransportError msg, w2) \<Rightarrow>
             if attempt < retries - 1
             then (case sleep (2 ^ nat attempt) w2 of
                     Inl e \<Rightarrow> (Inl e, w2)
                   | Inr w3 \<Rightarrow> request_loop rq is_post retries (attempt + 1) w3)
             else (Inl (TraktAPIError (''Request failed: '' @ msg) 0), w2)
         | (Responded r, w2) \<Rightarrow>
             if status_code r = 429
             then (case retry_after_seconds (retry_after r) of
                     Inl e \<Rightarrow> (Inl e, w2)
                   | Inr secs \<Rightarrow>
                       (case sleep secs w2 of
                          Inl e \<Rightarrow> (Inl e, w2)
                        | Inr w3 \<Rightarrow> request_loop rq is_post retries (attempt + 1) w3))
             else if status_code r \<ge> 400
             then (Inl (TraktAPIError (''API error: '' @ str_int (status_code r) @ '' - '' @ response_text r)
                          (status_code r)), w2)
             else if status_code r = 204 then (Inr (JObj []), w2)
             else (case json_body r of
                     Inl msg \<Rightarrow> (Inl (ValueError msg), w2)
                   | Inr v \<Rightarrow> (Inr v, w2))))"
  by pat_completeness auto
termination
  by (relation "measure (\<lambda>(rq, is_post, retries, attempt, w). nat (retries - attempt))") auto

declare request_loop.simps [simp del]

definition request :: "http_method \<Rightarrow> string \<Rightarrow> payload option \<Rightarrow> int \<Rightarrow> world \<Rightarrow> (exn + json) \<times> world" where
  "request method endpoint data retries w =
     (let is_post = (method \<in> {POST, PUT, DELETE});
          body = (case data of None \<Rightarrow> None | Some d \<Rightarrow> if d \<noteq> [] then Some d else None)
      in request_loop \<lparr>req_method = method, req_endpoint = endpoint, req_json = body\<rparr>
           is_post retries 0 w)"

text \<open>
  The part of the client the sync engine uses: \<open>is_authenticated\<close> and the two methods
  \<open>sync_ratings\<close> and \<open>sync_history\<close> (here \<open>client_sync_ratings\<close> and
  \<open>client_sync_history\<close>; the engine's own methods have those names). The engine is
  modelled for any client; \<open>TraktClient\<close> is the one of the source, whose methods call
  \<open>_request\<close> with the default \<open>retries = 3\<close>.
\<close>

record client =
  is_authenticated :: bool
  client_sync_ratings :: "payload \<Rightarrow> world \<Rightarrow> (exn + json) \<times> world"
  client_sync_history :: "payload \<Rightarrow> world \<Rightarrow> (exn + json) \<times> world"

definition TraktClient :: "bool \<Rightarrow> client" where
  "TraktClient has_token =
     \<lparr>is_authenticated = has_token,
      client_sync_ratings = (\<lambda>data. request POST ''/sync/ratings'' (Some data) 3),
      client_sync_history = (\<lambda>data. request POST ''/sync/history'' (Some data) 3)\<rparr>"


section \<open>The batch sync engine (src/trakt_sync.py)\<close>

definition BATCH_SIZE :: nat where "BATCH_SIZE = 50"
definition MAX_CONSECUTIVE_FAILURES :: nat where "MAX_CONSECUTIVE_FAILURES = 3"
definition BACKOFF_BASE_SECONDS :: int where "BACKOFF_BASE_SECONDS = 5"
definition MAX_BACKOFF_SECONDS :: int where "MAX_BACKOFF_SECONDS = 60"

text \<open>
  The results dict of a run, with one field per key, and an entry of its
  \<open>failed_batches\<close> list (keys \<open>type\<close> and \<open>data\<close>).
\<close>

record failed_batch =
  fb_type :: string
  fb_data :: payload

record results =
  history_added :: int
  history_existing :: int
  ratings_added :: int
  ratings_existing :: int
  errors :: "string list"
  failed_batches :: "failed_batch list"
  stopped_early :: bool

definition init_results :: results where
  "init_results =
     \<lparr>history_added = 0, history_existing = 0, ratings_added = 0, ratings_existing = 0,
      errors = [], failed_batches = [], stopped_early = False\<rparr>"

text \<open>
  \<open>_sync_batch\<close>. The results dict is shared and changed in place, so the model returns
  it beside the outcome, also when an exception leaves the function. The handler of
  \<open>TraktAPIError\<close> retries inside an inner \<open>try\<close> that catches \<open>TraktAPIError\<close> only;
  the clause \<open>except Exception\<close> of the outer \<open>try\<close> guards the first call only.
  \<open>record_failed\<close> is the pair of appends that ends the \<open>TraktAPIError\<close> handler.
\<close>

fun api_status :: "exn \<Rightarrow> int option" where
  "api_status (TraktAPIError _ status) = Some status"
| "api_status _ = None"

definition record_failed :: "results \<Rightarrow> string \<Rightarrow> payload \<Rightarrow> string \<Rightarrow> results" where
  "record_failed res batch_type batch_data note =
     res\<lparr>failed_batches := failed_batches res @ [\<lparr>fb_type = batch_type, fb_data = batch_data\<rparr>],
         errors := errors res @ [note]\<rparr>"

definition backoff_seconds :: "nat \<Rightarrow> int" where
  "backoff_seconds consecutive_failures =
     min (BACKOFF_BASE_SECONDS * 2 ^ consecutive_failures) MAX_BACKOFF_SECONDS"

definition sync_batch ::
  "(payload \<Rightarrow> world \<Rightarrow> (exn + json) \<times> world) \<Rightarrow> payload \<Rightarrow> nat \<Rightarrow> nat \<Rightarrow> nat \<Rightarrow> results \<Rightarrow>
   string \<Rightarrow> world \<Rightarrow> (exn + json) \<times> results \<times> world" where
  "sync_batch sync_func batch_data batch_num total_batches consecutive_failures res batch_type w =
     (case sync_func batch_data w of
        (Inr response, w1) \<Rightarrow> (Inr response, res, w1)
      | (Inl e, w1) \<Rightarrow>
          (case api_status e of
             Some status \<Rightarrow>
               (let failed = record_failed res batch_type batch_data
                               (batch_type @ '' batch '' @ str_nat batch_num @ '' failed'')
                in if status \<ge> 500
                   then (case sleep (backoff_seconds consecutive_failures) w1 of
                           Inl e1 \<Rightarrow> (Inl e1, res, w1)
                         | Inr w2 \<Rightarrow>
                             (case sync_func batch_data w2 of
                                (Inr response, w3) \<Rightarrow> (Inr response, res, w3)
                              | (Inl retry_e, w3) \<Rightarrow>
                                  (case api_status retry_e of
                                     Some _ \<Rightarrow> (Inr JNull, failed, w3)
                                   | None \<Rightarrow> (Inl retry_e, res, w3))))
                   else (Inr JNull, failed, w1))
           | None \<Rightarrow>
               if is_Exception e
               then (Inr JNull,
                     record_failed res batch_type batch_data
                       (batch_type @ '' batch '' @ str_nat batch_num @ '' failed: '' @ exn_str e),
                     w1)
               else (Inl e, res, w1)))"

text \<open>
  How a loop of the engine ends: an exception leaves it, a \<open>return\<close> leaves it after the
  circuit breaker opened, or it runs to its end (with the consecutive-failure counter it
  reached).
\<close>

datatype loop_exit = Raised exn | Returned | Completed nat

text \<open>The updates of the results after a batch that returned a response.\<close>

definition payload_get :: "payload \<Rightarrow> string \<Rightarrow> json list" where
  "payload_get data k = (case map_of data k of None \<Rightarrow> [] | Some items \<Rightarrow> items)"

definition added_sum :: "json \<Rightarrow> string \<Rightarrow> string \<Rightarrow> exn + json" where
  "added_sum added k1 k2 =
     and_then (dict_get added k1 (JInt 0)) (\<lambda>a.
     and_then (dict_get added k2 (JInt 0)) (\<lambda>b. py_add a b))"

definition not_found_len :: "json \<Rightarrow> string \<Rightarrow> exn + int" where
  "not_found_len not_found k = and_then (dict_get not_found k (JList [])) py_len"

definition count_ratings :: "json \<Rightarrow> results \<Rightarrow> exn option \<times> results" where
  "count_ratings response res =
     (case dict_get response ''added'' (JObj []) of
        Inl e \<Rightarrow> (Some e, res)
      | Inr added \<Rightarrow>
     (case dict_get response ''not_found'' (JObj []) of
        Inl e \<Rightarrow> (Some e, res)
      | Inr not_found \<Rightarrow>
     (case and_then (added_sum added ''shows'' ''movies'') (counter_add (ratings_added res)) of
        Inl e \<Rightarrow> (Some e, res)
      | Inr n \<Rightarrow>
     (let res = res\<lparr>ratings_added := n\<rparr> in
      case not_found_len not_found ''shows'' of
        Inl e \<Rightarrow> (Some e, res)
      | Inr k \<Rightarrow>
     (let res = res\<lparr>ratings_existing := ratings_existing res + k\<rparr> in
      case not_found_len not_found ''movies'' of
        Inl e \<Rightarrow> (Some e, res)
      | Inr k \<Rightarrow> (None, res\<lparr>ratings_existing := ratings_existing res + k\<rparr>))))))"

definition count_history :: "json \<Rightarrow> results \<Rightarrow> exn option \<times> results" where
  "count_history response res =
     (case dict_get response ''added'' (JObj []) of
        Inl e \<Rightarrow> (Some e, res)
      | Inr added \<Rightarrow>
     (case dict_get response ''not_found'' (JObj []) of
        Inl e \<Rightarrow> (Some e, res)
      | Inr not_found \<Rightarrow>
     (case and_then (added_sum added ''episodes'' ''movies'') (counter_add (history_added res)) of
        Inl e \<Rightarrow> (Some e, res)
      | Inr n \<Rightarrow>
     (let res = res\<lparr>history_added := n\<rparr> in
      case not_found_len not_found ''shows'' of
        Inl e \<Rightarrow> (Some e, res)
      | Inr k \<Rightarrow>
     (let res = res\<lparr>history_existing := history_existing res + k\<rparr> in
      case not_found_len not_found ''movies'' of
        Inl e \<Rightarrow> (Some e, res)
      | Inr k \<Rightarrow> (None, res\<lparr>history_existing := history_existing res + k\<rparr>))))))"

text \<open>
  \<open>_sync_ratings\<close>. \<open>group_batch\<close> is the \<open>defaultdict(list)\<close> filled from the batch and
  turned into a dict; \<open>sync_ratings_loop\<close> is the loop
  \<open>for i in range(0, len(all_items), BATCH_SIZE)\<close> from index \<open>i\<close> on, with the
  counter \<open>consecutive_failures\<close>.
\<close>

fun group_batch :: "(string \<times> json) list \<Rightarrow> payload \<Rightarrow> payload" where
  "group_batch [] batch_data = batch_data"
| "group_batch ((item_type, item) # batch) batch_data =
     group_batch batch
       (case map_of batch_data item_type of
          None \<Rightarrow> batch_data @ [(item_type, [item])]
        | Some items \<Rightarrow>
            map (\<lambda>kv. if fst kv = item_type then (fst kv, snd kv @ [item]) else kv) batch_data)"

function sync_ratings_loop ::
  "client \<Rightarrow> (string \<times> json) list \<Rightarrow> nat \<Rightarrow> nat \<Rightarrow> nat \<Rightarrow> results \<Rightarrow> world \<Rightarrow>
   loop_exit \<times> results \<times> world" where
  "sync_ratings_loop c all_items total_batches i consecutive_failures res w =
     (if length all_items \<le> i then (Completed consecutive_failures, res, w)
      else
        (let batch = take BATCH_SIZE (drop i all_items);
             batch_data = group_batch batch [];
             batch_num = i div BATCH_SIZE + 1
         in case sync_batch (client_sync_ratings c) batch_data batch_num total_batches
                   consecutive_failures res ''ratings'' w of
              (Inl e, res1, w1) \<Rightarrow> (Raised e, res1, w1)
            | (Inr response, res1, w1) \<Rightarrow>
                if response = JNull
                then (if consecutive_failures + 1 \<ge> MAX_CONSECUTIVE_FAILURES
                      then (Returned, res1\<lparr>stopped_early := True\<rparr>, w1)
                      else sync_ratings_loop c all_items total_batches (i + BATCH_SIZE)
                             (consecutive_failures + 1) res1 w1)
                else (case count_ratings response res1 of
                        (Some e, res2) \<Rightarrow> (Raised e, res2, w1)
                      | (None, res2) \<Rightarrow>
                          sync_ratings_loop c all_items total_batches (i + BATCH_SIZE) 0 res2 w1)))"
  by pat_completeness auto
termination
  by (relation "measure (\<lambda>(c, all_items, total_batches, i, cf, res, w). length all_items - i)")
     (auto simp add: BATCH_SIZE_def)

declare sync_ratings_loop.simps [simp del]

definition sync_ratings :: "client \<Rightarrow> payload \<Rightarrow> results \<Rightarrow> world \<Rightarrow> loop_exit \<times> results \<times> world" where
  "sync_ratings c ratings_data res w =
     (let all_items = concat (map (\<lambda>item_type. map (\<lambda>item. (item_type, item))
                                                  (payload_get ratings_data item_type))
                                  [''shows'', ''movies''])
      in if all_items = [] then (Returned, res, w)
         else (let total_batches = (length all_items + BATCH_SIZE - 1) div BATCH_SIZE
               in sync_ratings_loop c all_items total_batches 0 0 res w))"

text \<open>
  \<open>_sync_history\<close>: \<open>history_batches\<close> is the inner loop over the batches of one media
  kind, \<open>history_kinds\<close> the outer loop over the kinds. The counter
  \<open>consecutive_failures\<close> is set to zero once, before the outer loop.
\<close>

function history_batches ::
  "client \<Rightarrow> string \<Rightarrow> json list \<Rightarrow> nat \<Rightarrow> nat \<Rightarrow> nat \<Rightarrow> results \<Rightarrow> world \<Rightarrow>
   loop_exit \<times> results \<times> world" where
  "history_batches c item_type items total_batches i consecutive_failures res w =
     (if length items \<le> i then (Completed consecutive_failures, res, w)
      else
        (let batch_data = [(item_type, take BATCH_SIZE (drop i items))];
             batch_num = i div BATCH_SIZE + 1
         in case sync_batch (client_sync_history c) batch_data batch_num total_batches
                   consecutive_failures res (''history/'' @ item_type) w of
              (Inl e, res1, w1) \<Rightarrow> (Raised e, res1, w1)
            | (Inr response, res1, w1) \<Rightarrow>
                if response = JNull
                then (if consecutive_failures + 1 \<ge> MAX_CONSECUTIVE_FAILURES
                      then (Returned, res1\<lparr>stopped_early := True\<rparr>, w1)
                      else history_batches c item_type items total_batches (i + BATCH_SIZE)
                             (consecutive_failures + 1) res1 w1)
                else (case count_history response res1 of
                        (Some e, res2) \<Rightarrow> (Raised e, res2, w1)
                      | (None, res2) \<Rightarrow>
                          history_batches c item_type items total_batches (i + BATCH_SIZE) 0 res2 w1)))"
  by pat_completeness auto
termination
  by (relation "measure (\<lambda>(c, item_type, items, total_batches, i, cf, res, w). length items - i)")
     (auto simp add: BATCH_SIZE_def)

declare history_batches.simps [simp del]

fun history_kinds ::
  "client \<Rightarrow> payload \<Rightarrow> string list \<Rightarrow> nat \<Rightarrow> results \<Rightarrow> world \<Rightarrow> loop_exit \<times> results \<times> world" where
  "history_kinds c history_data [] consecutive_failures res w =
     (Completed consecutive_failures, res, w)"
| "history_kinds c history_data (item_type # kinds) consecutive_failures res w =
     (let items = payload_get history_data item_type
      in if items = [] then history_kinds c history_data kinds consecutive_failures res w
         else (let total_batches = (length items + BATCH_SIZE - 1) div BATCH_SIZE
               in case history_batches c item_type items total_batches 0 consecutive_failures res w of
                    (Completed cf, res1, w1) \<Rightarrow> history_kinds c history_data kinds cf res1 w1
                  | other \<Rightarrow> other))"

definition sync_history :: "client \<Rightarrow> payload \<Rightarrow> results \<Rightarrow> world \<Rightarrow> loop_exit \<times> results \<times> world" where
  "sync_history c history_data res w = history_kinds c history_data [''shows'', ''movies''] 0 res w"


text \<open>
  The dry run: \<open>_dry_run_ratings\<close> and \<open>_dry_run_history\<close> count what a sync would send.
  The items of a payload are JSON values, read with \<open>get\<close>, \<open>len\<close> and iteration.
\<close>

definition dry_run_ratings :: "payload \<Rightarrow> results \<Rightarrow> results" where
  "dry_run_ratings ratings_data res =
     (let count = int (length (payload_get ratings_data ''shows'')) +
                  int (length (payload_get ratings_data ''movies''))
      in res\<lparr>ratings_added := count\<rparr>)"

fun sum_results :: "('a \<Rightarrow> exn + int) \<Rightarrow> 'a list \<Rightarrow> int \<Rightarrow> exn + int" where
  "sum_results f [] acc = Inr acc"
| "sum_results f (x # xs) acc =
     (case f x of Inl e \<Rightarrow> Inl e | Inr n \<Rightarrow> sum_results f xs (acc + n))"

definition season_episode_count :: "json \<Rightarrow> exn + int" where
  "season_episode_count s = and_then (dict_get s ''episodes'' (JList [])) py_len"

definition show_episode_count :: "json \<Rightarrow> exn + int" where
  "show_episode_count show =
     and_then (dict_get show ''seasons'' (JList [])) (\<lambda>seasons.
     and_then (py_iter seasons) (\<lambda>ss. sum_results season_episode_count ss 0))"

definition dry_run_history :: "payload \<Rightarrow> results \<Rightarrow> exn option \<times> results" where
  "dry_run_history history_data res =
     (case sum_results show_episode_count (payload_get history_data ''shows'') 0 of
        Inl e \<Rightarrow> (Some e, res)
      | Inr ep_count \<Rightarrow>
          (let movie_count = int (length (payload_get history_data ''movies''))
           in (None, res\<lparr>history_added := ep_count + movie_count\<rparr>)))"

text \<open>
  \<open>_save_failed_batches\<close> writes the list \<open>failed_batches\<close> as JSON to
  \<open>failed_batches.json\<close> under the output directory. The file system is taken as
  writable.
\<close>

definition payload_json :: "payload \<Rightarrow> json" where
  "payload_json data = JObj (map (\<lambda>kv. (fst kv, JList (snd kv))) data)"

definition failed_batch_json :: "failed_batch \<Rightarrow> json" where
  "failed_batch_json fb = JObj [(''type'', JStr (fb_type fb)), (''data'', payload_json (fb_data fb))]"

definition save_failed_batches :: "results \<Rightarrow> string option \<Rightarrow> world \<Rightarrow> world" where
  "save_failed_batches res output_dir w =
     (case output_dir of
        None \<Rightarrow> w
      | Some dir \<Rightarrow>
          if failed_batches res = [] then w
          else w\<lparr>files := (files w)(dir @ ''/failed_batches.json'' \<mapsto>
                              JList (map failed_batch_json (failed_batches res)))\<rparr>)"

text \<open>
  \<open>TraktSyncer.sync\<close> (its parameter \<open>anime_list\<close> is not used by the body). The flags
  \<open>sync_ratings\<close> and \<open>sync_history\<close> are \<open>do_ratings\<close> and \<open>do_history\<close> here. The body
  of the \<open>try\<close> is the ratings phase followed by the history phase; the handler turns a
  \<open>KeyboardInterrupt\<close> into \<open>stopped_early\<close> and a note; any other exception leaves
  \<open>sync\<close> after the \<open>finally\<close> clause has saved the failed batches.
\<close>

definition ratings_phase ::
  "client \<Rightarrow> payload option \<Rightarrow> bool \<Rightarrow> bool \<Rightarrow> results \<Rightarrow> world \<Rightarrow> loop_exit \<times> results \<times> world" where
  "ratings_phase c ratings_data do_ratings dry_run res w =
     (case ratings_data of
        None \<Rightarrow> (Completed 0, res, w)
      | Some rd \<Rightarrow>
          if do_ratings \<and> rd \<noteq> []
          then (if dry_run then (Completed 0, dry_run_ratings rd res, w)
                else sync_ratings c rd res w)
          else (Completed 0, res, w))"

definition history_phase ::
  "client \<Rightarrow> payload option \<Rightarrow> bool \<Rightarrow> bool \<Rightarrow> results \<Rightarrow> world \<Rightarrow> loop_exit \<times> results \<times> world" where
  "history_phase c history_data do_history dry_run res w =
     (case history_data of
        None \<Rightarrow> (Completed 0, res, w)
      | Some hdata \<Rightarrow>
          if do_history \<and> hdata \<noteq> [] \<and> \<not> stopped_early res
          then (if dry_run
                then (case dry_run_history hdata res of
                        (Some e, res1) \<Rightarrow> (Raised e, res1, w)
                      | (None, res1) \<Rightarrow> (Completed 0, res1, w))
                else sync_history c hdata res w)
          else (Completed 0, res, w))"

definition sync ::
  "client \<Rightarrow> payload option \<Rightarrow> payload option \<Rightarrow> bool \<Rightarrow> bool \<Rightarrow> bool \<Rightarrow> string option \<Rightarrow>
   world \<Rightarrow> (exn + results) \<times> world" where
  "sync c ratings_data history_data do_ratings do_history dry_run output_dir w =
     (if \<not> is_authenticated c then (Inl (RuntimeError ''Trakt client not authenticated''), w)
      else
        (case (case ratings_phase c ratings_data do_ratings dry_run init_results w of
                 (Raised e, res1, w1) \<Rightarrow> (Raised e, res1, w1)
               | (_, res1, w1) \<Rightarrow> history_phase c history_data do_history dry_run res1 w1) of
           (Raised KeyboardInterrupt, res2, w2) \<Rightarrow>
             (let res3 = res2\<lparr>stopped_early := True,
                               errors := errors res2 @ [''Interrupted by user (Ctrl+C)'']\<rparr>
              in (Inr res3, save_failed_batches res3 output_dir w2))
         | (Raised e, res2, w2) \<Rightarrow> (Inl e, save_failed_batches res2 output_dir w2)
         | (_, res2, w2) \<Rightarrow> (Inr res2, save_failed_batches res2 output_dir w2)))"


section \<open>Checkpoints (src/trakt_sync.py, src/trakt_data.py)\<close>

subsection \<open>Timestamps as text\<close>

text \<open>
  \<open>datetime_to_iso\<close> formats with \<open>strftime("%Y-%m-%dT%H:%M:%S.000Z")\<close>: the fields
  \<open>%m\<close>, \<open>%d\<close>, \<open>%H\<close>, \<open>%M\<close>, \<open>%S\<close> are two digits each, \<open>%Y\<close> is the year as the C
  library prints it (glibc does not pad it), and the microsecond is not printed: the
  format holds the literal \<open>.000\<close>.
\<close>

definition two_digits :: "nat \<Rightarrow> string" where
  "two_digits n = [digit_char (n div 10 mod 10), digit_char (n mod 10)]"

definition strftime_iso :: "datetime \<Rightarrow> string" where
  "strftime_iso dt =
     str_nat (year dt) @ ''-'' @ two_digits (month dt) @ ''-'' @ two_digits (day dt) @ ''T'' @
     two_digits (hour dt) @ '':'' @ two_digits (minute dt) @ '':'' @ two_digits (second dt) @
     ''.000Z''"

definition datetime_to_iso :: "datetime option \<Rightarrow> string option" where
  "datetime_to_iso dt = (case dt of None \<Rightarrow> None | Some d \<Rightarrow> Some (strftime_iso d))"

text \<open>
  \<open>str.replace(old, new)\<close>: every occurrence of \<open>old\<close>, found from the left and not
  overlapping, becomes \<open>new\<close>; an empty \<open>old\<close> matches before every character and at
  the end.
\<close>

function replace_from :: "string \<Rightarrow> string \<Rightarrow> string \<Rightarrow> string" where
  "replace_from old new s =
     (if s = [] \<or> old = [] then s
      else if take (length old) s = old then new @ replace_from old new (drop (length old) s)
      else hd s # replace_from old new (tl s))"
  by pat_completeness auto
termination
  by (relation "measure (\<lambda>(old, new, s). length s)") (auto simp add: neq_Nil_conv)

declare replace_from.simps [simp del]

definition replace :: "string \<Rightarrow> string \<Rightarrow> string \<Rightarrow> string" where
  "replace s old new =
     (if old = [] then new @ concat (map (\<lambda>c. c # new) s) else replace_from old new s)"

text \<open>
  The constructor of \<open>datetime\<close> accepts exactly the fields of a calendar date and a time
  of day; \<open>valid_datetime\<close> is its check.
\<close>

definition is_leap :: "nat \<Rightarrow> bool" where
  "is_leap y = (y mod 4 = 0 \<and> (y mod 100 \<noteq> 0 \<or> y mod 400 = 0))"

definition days_in_month :: "nat \<Rightarrow> nat \<Rightarrow> nat" where
  "days_in_month y m =
     (if m = 2 then (if is_leap y then 29 else 28)
      else if m \<in> {4, 6, 9, 11} then 30 else 31)"

definition valid_datetime :: "datetime \<Rightarrow> bool" where
  "valid_datetime dt =
     (1 \<le> year dt \<and> year dt \<le> 9999 \<and> 1 \<le> month dt \<and> month dt \<le> 12 \<and>
      1 \<le> day dt \<and> day dt \<le> days_in_month (year dt) (month dt) \<and>
      hour dt < 24 \<and> minute dt < 60 \<and> second dt < 60 \<and> microsecond dt < 1000000)"

text \<open>
  \<open>datetime.fromisoformat\<close> belongs to the standard library. \<open>iso_layout\<close> holds of
  the strings \<open>YYYY-MM-DD?HH:MM:SS\<close>, \<open>YYYY-MM-DD?HH:MM:SS.fff\<close> and
  \<open>YYYY-MM-DD?HH:MM:SS.ffffff\<close>, where \<open>?\<close> is any one character, the fraction is
  made of digits and the other places may hold anything. On these the model reads the
  six fields and the fraction as the library does: \<open>None\<close> (the library's \<open>ValueError\<close>)
  when a field is not made of digits or the fields are no date and time, and the
  datetime otherwise. The library reads further layouts (a date alone, hours and minutes,
  other fractions, a UTC offset); what it does on a string outside \<open>iso_layout\<close> is the
  parameter \<open>other\<close>, and everything below holds for every \<open>other\<close>.
\<close>

definition digit_value :: "char \<Rightarrow> nat option" where
  "digit_value c =
     (let n = (of_char c :: nat) in if 48 \<le> n \<and> n \<le> 57 then Some (n - 48) else None)"

fun parse_digits :: "string \<Rightarrow> nat \<Rightarrow> nat option" where
  "parse_digits [] acc = Some acc"
| "parse_digits (c # cs) acc =
     (case digit_value c of None \<Rightarrow> None | Some d \<Rightarrow> parse_digits cs (10 * acc + d))"

definition parse_nat :: "string \<Rightarrow> nat option" where
  "parse_nat s = (if s = [] then None else parse_digits s 0)"

definition iso_layout :: "string \<Rightarrow> bool" where
  "iso_layout s =
     (length s \<in> {19, 23, 26} \<and>
      s ! 4 = CHR ''-'' \<and> s ! 7 = CHR ''-'' \<and> s ! 13 = CHR '':'' \<and> s ! 16 = CHR '':'' \<and>
      (length s = 19 \<or> s ! 19 = CHR ''.'' \<and> parse_nat (drop 20 s) \<noteq> None))"

definition fromisoformat :: "(string \<Rightarrow> datetime option) \<Rightarrow> string \<Rightarrow> datetime option" where
  "fromisoformat other s =
     (if \<not> iso_layout s then other s
      else
        (case (parse_nat (take 4 s), parse_nat (take 2 (drop 5 s)), parse_nat (take 2 (drop 8 s)),
               parse_nat (take 2 (drop 11 s)), parse_nat (take 2 (drop 14 s)),
               parse_nat (take 2 (drop 17 s)),
               (if length s = 19 then Some 0
                else map_option (\<lambda>f. if length s = 23 then f * 1000 else f)
                       (parse_nat (drop 20 s)))) of
           (Some y, Some mo, Some d, Some h, Some mi, Some sec, Some us) \<Rightarrow>
             (let dt = \<lparr>year = y, month = mo, day = d, hour = h, minute = mi, second = sec,
                        microsecond = us\<rparr>
              in if valid_datetime dt then Some dt else None)
         | _ \<Rightarrow> None))"

text \<open>
  \<open>iso_to_datetime\<close>, applied to whatever JSON value the caller read. A falsy value
  gives \<open>None\<close>. On a string, the two \<open>replace\<close> calls and \<open>fromisoformat\<close> run inside
  \<open>try ... except ValueError\<close>. Any other truthy value has no method \<open>replace\<close>: the
  \<open>AttributeError\<close> is not a \<open>ValueError\<close> and leaves the function.
\<close>

definition iso_to_datetime :: "(string \<Rightarrow> datetime option) \<Rightarrow> json \<Rightarrow> exn + datetime option" where
  "iso_to_datetime other iso_str =
     (if \<not> truthy iso_str then Inr None
      else case iso_str of
             JStr s \<Rightarrow>
               Inr (fromisoformat other (replace (replace s ''Z'' ''+00:00'') ''+00:00'' ''''))
           | v \<Rightarrow> Inl (no_attribute v ''replace''))"

subsection \<open>\<open>load_checkpoint\<close> and \<open>save_checkpoint\<close>\<close>

text \<open>
  The checkpoint file as \<open>load_checkpoint\<close> meets it: absent, not readable (\<open>open\<close>
  raises \<open>OSError\<close>), not JSON (\<open>json.load\<close> raises \<open>JSONDecodeError\<close>), one on which
  \<open>json.load\<close> raises another exception (\<open>UnicodeDecodeError\<close> on bytes that are no
  text, \<open>ValueError\<close> on an integer of more than 4300 digits, \<open>RecursionError\<close> on
  nesting too deep), or holding a JSON value. The handler of \<open>load_checkpoint\<close> names
  \<open>JSONDecodeError\<close> and \<open>OSError\<close> only. \<open>json.dump\<close> followed by \<open>json.load\<close> gives
  the value back.

  A \<open>SyncCheckpoint\<close> is a dataclass; nothing checks its fields against their
  annotations when it is built, so a loaded checkpoint holds the JSON values of the
  file. The field \<open>errors\<close> is \<open>checkpoint_errors\<close> here (the results dict has a key of
  that name).
\<close>

datatype checkpoint_file = NoFile | Unreadable | NotJson | LoadRaises exn | JsonFile json

fun is_OSError :: "exn \<Rightarrow> bool" where
  "is_OSError (OSError _) = True"
| "is_OSError _ = False"

record SyncCheckpoint =
  last_processed_index :: json
  synced_ratings :: json
  synced_history :: json
  checkpoint_errors :: json
  timestamp :: "datetime option"

definition load_checkpoint ::
  "(string \<Rightarrow> datetime option) \<Rightarrow> checkpoint_file \<Rightarrow> exn + SyncCheckpoint option" where
  "load_checkpoint other f =
     (case f of
        NoFile \<Rightarrow> Inr None
      | Unreadable \<Rightarrow> Inr None
      | NotJson \<Rightarrow> Inr None
      | LoadRaises e \<Rightarrow> if is_OSError e then Inr None else Inl e
      | JsonFile data \<Rightarrow>
          and_then (dict_get data ''last_processed_index'' (JInt 0)) (\<lambda>idx.
          and_then (dict_get data ''synced_ratings'' (JList [])) (\<lambda>sr.
          and_then (dict_get data ''synced_history'' (JList [])) (\<lambda>sh.
          and_then (dict_get data ''errors'' (JList [])) (\<lambda>errs.
          and_then (dict_get data ''timestamp'' JNull) (\<lambda>ts.
          and_then (iso_to_datetime other ts) (\<lambda>stamp.
            Inr (Some \<lparr>last_processed_index = idx, synced_ratings = sr, synced_history = sh,
                       checkpoint_errors = errs, timestamp = stamp\<rparr>))))))))"

text \<open>
  \<open>save_checkpoint\<close>; \<open>now\<close> is what \<open>datetime.now()\<close> reads from the clock. The
  result is the file after the write (the directory is taken as writable).
\<close>

definition save_checkpoint :: "SyncCheckpoint \<Rightarrow> datetime \<Rightarrow> checkpoint_file" where
  "save_checkpoint checkpoint now =
     JsonFile (JObj
       [(''last_processed_index'', last_processed_index checkpoint),
        (''synced_ratings'', synced_ratings checkpoint),
        (''synced_history'', synced_history checkpoint),
        (''errors'', checkpoint_errors checkpoint),
        (''timestamp'',
           (case datetime_to_iso (Some (case timestamp checkpoint of Some t \<Rightarrow> t | None \<Rightarrow> now)) of
              None \<Rightarrow> JNull
            | Some s \<Rightarrow> JStr s))])"

section \<open>Example data\<close>

text \<open>
  Concrete values used below to run the definitions: two dates, a mapped show with
  four watched episodes and a rating, and its entry on Trakt (rated 8, with two
  watched episodes) for a given remote rating date.
\<close>

definition dt_2023_04_15 :: datetime where
  "dt_2023_04_15 = \<lparr>year = 2023, month = 4, day = 15, hour = 0, minute = 0, second = 0, microsecond = 0\<rparr>"

definition dt_2024_01_01 :: datetime where
  "dt_2024_01_01 = \<lparr>year = 2024, month = 1, day = 1, hour = 0, minute = 0, second = 0, microsecond = 0\<rparr>"

definition ex_ids :: MappedIds where
  "ex_ids = \<lparr>tvdb_id = Some 81797, imdb_id = None, tmdb_show_id = None, tmdb_movie_id = None,
             tvdb_season = 2, tvdb_epoffset = 12\<rparr>"

definition ex_episodes :: "WatchedEpisode list" where
  "ex_episodes =
     [\<lparr>episode_number = 1, episode_type = REGULAR, watched_at = None\<rparr>,
      \<lparr>episode_number = 1, episode_type = SPECIAL, watched_at = None\<rparr>,
      \<lparr>episode_number = 1, episode_type = CREDITS, watched_at = None\<rparr>,
      \<lparr>episode_number = 2, episode_type = REGULAR, watched_at = Some dt_2023_04_15\<rparr>]"

definition ex_rating :: AnimeRating where
  "ex_rating = \<lparr>score = 9, rated_at = Some dt_2023_04_15, is_temporary = False\<rparr>"

definition ex_anime :: AnimeEntry where
  "ex_anime =
     \<lparr>anidb_id = 69, title = ''One Piece'', title_english = None, anime_type = TV,
      total_episodes = 0, total_specials = 0, watched_episodes = ex_episodes,
      rating = Some ex_rating, mapped_ids = Some ex_ids, is_hentai = False\<rparr>"

definition ex_trakt :: "datetime option \<Rightarrow> TraktEntry" where
  "ex_trakt remote_rated_at =
     \<lparr>trakt_id = Some 1, trakt_title = Some ''One Piece'', trakt_ids = get_trakt_ids ex_ids,
      trakt_rating = Some 8, trakt_rated_at = remote_rated_at,
      trakt_watched_episodes = [\<lparr>season = Some 2, episode = Some 13\<rparr>,
                                \<lparr>season = Some 5, episode = Some 7\<rparr>],
      is_movie = False\<rparr>"

text \<open>An entry whose only identifier is \<open>tvdb_id = 0\<close>.\<close>

definition zero_ids :: MappedIds where
  "zero_ids = \<lparr>tvdb_id = Some 0, imdb_id = None, tmdb_show_id = None, tmdb_movie_id = None,
               tvdb_season = 1, tvdb_epoffset = 0\<rparr>"

definition zero_anime :: AnimeEntry where
  "zero_anime = ex_anime\<lparr>mapped_ids := Some zero_ids\<rparr>"

text \<open>
  Worlds for the sync engine, each with no request sent yet and a clock that lets a
  sleep last up to 9223357991 seconds. Their servers: one answers every request with
  400, one with 503, one with 429 and \<open>Retry-After: 7\<close>; one answers 429 once and then
  200; one answers 503 and then 200 with a body that is not JSON; one answers 429 with
  a \<open>Retry-After\<close> that is a date; and one answers 503 twice, 200 once and 503 from
  then on. The payloads: one show, 151 shows (four batches), 251 shows (six batches),
  51 shows with 101 movies, 151 shows with one movie.
\<close>

definition plain_response :: "int \<Rightarrow> http_response" where
  "plain_response st =
     \<lparr>status_code = st, retry_after = NoRetryAfter, response_text = [], json_body = Inr (JObj [])\<rparr>"

definition world_of :: "(nat \<Rightarrow> http_outcome) \<Rightarrow> world" where
  "world_of outcomes =
     \<lparr>server = outcomes, served = 0, trace = [], files = Map.empty, longest_sleep = 9223357991\<rparr>"



definition failing_world :: world where
  "failing_world = world_of (\<lambda>k. Responded (plain_response 503))"



definition bad_retry_world :: world where
  "bad_retry_world =
     world_of (\<lambda>k. if k = 0 then Responded (plain_response 503)
                    else Responded ((plain_response 200)\<lparr>json_body := Inl ''Expecting value''\<rparr>))"


definition flaky_world :: world where
  "flaky_world =
     world_of (\<lambda>k. if k = 2 then Responded (plain_response 200)
                    else Responded (plain_response 503))"

definition one_show :: payload where
  "one_show = [(''shows'', [JObj [(''rating'', JInt 9)]])]"


definition more_shows :: payload where
  "more_shows = [(''shows'', replicate 251 JNull)]"

definition shows_and_movies :: payload where
  "shows_and_movies = [(''shows'', replicate 51 JNull), (''movies'', replicate 101 JNull)]"

definition many_shows_one_movie :: payload where
  "many_shows_one_movie = [(''shows'', replicate 151 JNull), (''movies'', [JNull])]"

text \<open>
  Two checkpoints: the one of the repository's test (with a timestamp at noon), and one
  with \<open>last_processed_index = 10\<close> and \<open>synced_ratings = [1, 2, 3]\<close> and every other
  field at its default, so without a timestamp.
\<close>

definition test_checkpoint :: SyncCheckpoint where
  "test_checkpoint =
     \<lparr>last_processed_index = JInt 10, synced_ratings = JList [JInt 1, JInt 2, JInt 3],
      synced_history = JList [JInt 4, JInt 5],
      checkpoint_errors = JList [JObj [(''error'', JStr ''test'')]],
      timestamp = Some (dt_2023_04_15\<lparr>hour := 12\<rparr>)\<rparr>"

definition spec_checkpoint :: SyncCheckpoint where
  "spec_checkpoint =
     \<lparr>last_processed_index = JInt 10, synced_ratings = JList [JInt 1, JInt 2, JInt 3],
      synced_history = JList [], checkpoint_errors = JList [], timestamp = None\<rparr>"

section \<open>Notions used in the statements\<close>

text \<open>
  \<open>not_on_remote m te ep\<close>: the pair that \<open>map_episode_to_trakt\<close> gives for the local
  episode \<open>ep\<close> under the identifiers \<open>m\<close> is not among the pairs of the Trakt entry
  \<open>te\<close>.
\<close>

definition not_on_remote :: "MappedIds \<Rightarrow> TraktEntry option \<Rightarrow> WatchedEpisode \<Rightarrow> bool" where
  "not_on_remote m te ep =
     (case map_episode_to_trakt ep (Some m) of
        Inl _ \<Rightarrow> False
      | Inr (s, e) \<Rightarrow> (Some s, Some e) \<notin> existing_eps te)"

text \<open>
  The batches of a run and their outcomes. \<open>ratings_send\<close> and \<open>history_send\<close> are the
  calls of \<open>_sync_batch\<close> that the two loops make for the batch starting at index \<open>i\<close>;
  \<open>batch_sends send i m\<close> lists them for \<open>m\<close> batches in a row, and \<open>batch_count n\<close> is
  the number of batches of \<open>n\<close> items. \<open>rating_items\<close> is the list \<open>all_items\<close> that
  \<open>_sync_ratings\<close> builds.

  The outcomes of the batches sent so far are a list of booleans, \<open>True\<close> for a batch that
  failed (\<open>_sync_batch\<close> returned \<open>None\<close>); \<open>trailing_failures\<close> is the number of failures
  at its end, that is, of consecutive failures up to now. \<open>attempts sends count
  outcomes res w\<close> sends the listed batches one after the other, whatever their
  outcomes, each with the number of consecutive failures before it, and counts each
  response with \<open>count\<close>; it gives the outcomes, the results and the world after the
  last one, and is \<open>None\<close> when an exception leaves a send or the counting.
  \<open>third_failure_at_end\<close> holds of outcomes that end with three failures in a row and
  have no three in a row before.
\<close>

definition ratings_send ::
  "client \<Rightarrow> (string \<times> json) list \<Rightarrow> nat \<Rightarrow> nat \<Rightarrow> nat \<Rightarrow> results \<Rightarrow> world \<Rightarrow>
   (exn + json) \<times> results \<times> world" where
  "ratings_send c all_items total_batches i cf res w =
     sync_batch (client_sync_ratings c) (group_batch (take BATCH_SIZE (drop i all_items)) [])
       (i div BATCH_SIZE + 1) total_batches cf res ''ratings'' w"

definition history_send ::
  "client \<Rightarrow> string \<Rightarrow> json list \<Rightarrow> nat \<Rightarrow> nat \<Rightarrow> nat \<Rightarrow> results \<Rightarrow> world \<Rightarrow>
   (exn + json) \<times> results \<times> world" where
  "history_send c item_type items total_batches i cf res w =
     sync_batch (client_sync_history c) [(item_type, take BATCH_SIZE (drop i items))]
       (i div BATCH_SIZE + 1) total_batches cf res (''history/'' @ item_type) w"

definition batch_count :: "nat \<Rightarrow> nat" where
  "batch_count n = (n + BATCH_SIZE - 1) div BATCH_SIZE"

definition rating_items :: "payload \<Rightarrow> (string \<times> json) list" where
  "rating_items ratings_data =
     concat (map (\<lambda>item_type. map (\<lambda>item. (item_type, item)) (payload_get ratings_data item_type))
                 [''shows'', ''movies''])"

fun batch_sends ::
  "(nat \<Rightarrow> nat \<Rightarrow> results \<Rightarrow> world \<Rightarrow> (exn + json) \<times> results \<times> world) \<Rightarrow> nat \<Rightarrow> nat \<Rightarrow>
   (nat \<Rightarrow> results \<Rightarrow> world \<Rightarrow> (exn + json) \<times> results \<times> world) list" where
  "batch_sends send i 0 = []"
| "batch_sends send i (Suc m) = send i # batch_sends send (i + BATCH_SIZE) m"

definition ratings_sends :: "client \<Rightarrow> payload \<Rightarrow>
   (nat \<Rightarrow> results \<Rightarrow> world \<Rightarrow> (exn + json) \<times> results \<times> world) list" where
  "ratings_sends c ratings_data =
     batch_sends (ratings_send c (rating_items ratings_data)
                    (batch_count (length (rating_items ratings_data))))
       0 (batch_count (length (rating_items ratings_data)))"

definition kind_sends :: "client \<Rightarrow> payload \<Rightarrow> string \<Rightarrow>
   (nat \<Rightarrow> results \<Rightarrow> world \<Rightarrow> (exn + json) \<times> results \<times> world) list" where
  "kind_sends c history_data item_type =
     batch_sends (history_send c item_type (payload_get history_data item_type)
                    (batch_count (length (payload_get history_data item_type))))
       0 (batch_count (length (payload_get history_data item_type)))"

definition history_sends :: "client \<Rightarrow> payload \<Rightarrow>
   (nat \<Rightarrow> results \<Rightarrow> world \<Rightarrow> (exn + json) \<times> results \<times> world) list" where
  "history_sends c history_data =
     kind_sends c history_data ''shows'' @ kind_sends c history_data ''movies''"

definition trailing_failures :: "bool list \<Rightarrow> nat" where
  "trailing_failures outcomes = length (takeWhile (\<lambda>failed. failed) (rev outcomes))"

fun attempts ::
  "(nat \<Rightarrow> results \<Rightarrow> world \<Rightarrow> (exn + json) \<times> results \<times> world) list \<Rightarrow>
   (json \<Rightarrow> results \<Rightarrow> exn option \<times> results) \<Rightarrow> bool list \<Rightarrow> results \<Rightarrow> world \<Rightarrow>
   (bool list \<times> results \<times> world) option" where
  "attempts [] count outcomes res w = Some (outcomes, res, w)"
| "attempts (send # sends) count outcomes res w =
     (case send (trailing_failures outcomes) res w of
        (Inl e, res1, w1) \<Rightarrow> None
      | (Inr response, res1, w1) \<Rightarrow>
          if response = JNull then attempts sends count (outcomes @ [True]) res1 w1
          else (case count response res1 of
                  (Some e, res2) \<Rightarrow> None
                | (None, res2) \<Rightarrow> attempts sends count (outcomes @ [False]) res2 w1))"

definition third_failure_at_end :: "bool list \<Rightarrow> bool" where
  "third_failure_at_end outcomes =
     (MAX_CONSECUTIVE_FAILURES \<le> trailing_failures outcomes \<and>
      (\<forall>j < length outcomes. trailing_failures (take j outcomes) < MAX_CONSECUTIVE_FAILURES))"



section \<open>Properties of the conflict resolver\<close>

lemma map_episode_to_trakt_Some:
  "map_episode_to_trakt ep (Some m) =
     Inr (if is_special ep then (0, episode_number ep)
          else (tvdb_season m, episode_number ep + tvdb_epoffset m))"
  by (simp add: map_episode_to_trakt_def)

lemma episodes_loop_filter:
  "episodes_loop (Some m) (existing_eps te) eps acc = Inr (acc @ filter (not_on_remote m te) eps)"
  by (induction eps arbitrary: acc)
     (simp_all add: not_on_remote_def map_episode_to_trakt_Some split: prod.splits)

lemma resolve_single_episodes:
  assumes "mapped_ids a = Some m"
  shows "\<exists>r. resolve_single a te = Inr r \<and> trakt_entry r = te \<and> anime r = a \<and>
             episodes_to_sync r = filter (not_on_remote m te) (watched_episodes a)"
  using assms
  by (auto simp add: resolve_single_def Let_def episodes_loop_filter split: option.splits)

lemma get_trakt_ids_truthy:
  "IntId 0 \<notin> snd ` set (get_trakt_ids m) \<and> StrId [] \<notin> snd ` set (get_trakt_ids m)"
  by (auto simp add: get_trakt_ids_def Let_def truthy_int_def truthy_str_def split: option.splits if_splits)

lemma resolve_loop_skip:
  "\<not> is_mapped a \<Longrightarrow> resolve_loop df (pre @ a # post) acc = resolve_loop df (pre @ post) acc"
  by (induction pre arbitrary: acc) (auto split: sum.splits)

lemma datetime_lt_irrefl: "\<not> datetime_lt d d"
  by (simp add: datetime_lt_def)

text \<open>
  C3. Episode mapping: an episode that is not regular goes to season 0 with its number
  unchanged, whatever \<open>tvdb_season\<close> is; a regular episode goes to \<open>tvdb_season\<close> with its
  number shifted by \<open>tvdb_epoffset\<close>.
\<close>

theorem map_episode_to_trakt_rule:
  "(episode_type ep \<noteq> REGULAR \<longrightarrow> map_episode_to_trakt ep (Some m) = Inr (0, episode_number ep)) \<and>
   (episode_type ep = REGULAR \<longrightarrow>
      map_episode_to_trakt ep (Some m) = Inr (tvdb_season m, episode_number ep + tvdb_epoffset m))"
  by (simp add: map_episode_to_trakt_def is_special_def)

theorem map_episode_to_trakt_rule_witness:
  "map_episode_to_trakt (ex_episodes ! 1) (Some ex_ids) = Inr (0, 1) \<and>
   map_episode_to_trakt (ex_episodes ! 3) (Some ex_ids) = Inr (2, 14)"
  using map_episode_to_trakt_rule [of "ex_episodes ! 1" ex_ids]
        map_episode_to_trakt_rule [of "ex_episodes ! 3" ex_ids]
  by (simp add: ex_episodes_def ex_ids_def)

text \<open>
  C1, as the code has it. For a local entry with a rating and a Trakt entry with a
  (non-zero) rating of a different score, the resolver sets \<open>rating_conflict\<close>, and
  \<open>keep_anidb_rating\<close> holds exactly when the local rating has a date and either the
  remote rating has none or the local date is strictly earlier. With equal dates, and with
  no local date, the Trakt rating is kept.
\<close>

theorem rating_conflict_older_timestamp_wins:
  assumes "rating a = Some r" and "trakt_rating t = Some s" and "s \<noteq> 0" and "score r \<noteq> s"
    and "mapped_ids a = Some m"
  shows "\<exists>res. resolve_single a (Some t) = Inr res \<and> rating_conflict res \<and>
           keep_anidb_rating res =
             (case rated_at r of
                None \<Rightarrow> False
              | Some l \<Rightarrow> (case trakt_rated_at t of None \<Rightarrow> True | Some rm \<Rightarrow> datetime_lt l rm)) \<and>
           (rated_at r = trakt_rated_at t \<longrightarrow> \<not> keep_anidb_rating res)"
  using assms
  by (auto simp add: resolve_single_def Let_def episodes_loop_filter truthy_int_def
        older_rating_wins_def datetime_lt_irrefl split: option.splits)

theorem rating_conflict_older_timestamp_wins_witness:
  "\<exists>res. resolve_single ex_anime (Some (ex_trakt (Some dt_2024_01_01))) = Inr res \<and>
         rating_conflict res \<and> keep_anidb_rating res"
  using rating_conflict_older_timestamp_wins
          [of ex_anime ex_rating "ex_trakt (Some dt_2024_01_01)" 8 ex_ids]
  by (simp add: ex_anime_def ex_rating_def ex_trakt_def datetime_lt_def datetime_key_def
        dt_2023_04_15_def dt_2024_01_01_def)

text \<open>
  The claim as stated fails on a tie: both ratings dated 2023-04-15, scores 9 and 8.
  The resolver flags the conflict and keeps the Trakt rating.
\<close>

theorem equal_timestamps_keep_trakt:
  "rating ex_anime = Some ex_rating \<and> score ex_rating = 9 \<and>
   trakt_rating (ex_trakt (Some dt_2023_04_15)) = Some 8 \<and>
   rated_at ex_rating = trakt_rated_at (ex_trakt (Some dt_2023_04_15)) \<and>
   resolve_single ex_anime (Some (ex_trakt (Some dt_2023_04_15))) =
     Inr \<lparr>anime = ex_anime, trakt_entry = Some (ex_trakt (Some dt_2023_04_15)),
          keep_anidb_rating = False, rating_conflict = True,
          episodes_to_sync = [ex_episodes ! 1, ex_episodes ! 2, ex_episodes ! 3]\<rparr>"
  by (simp add: resolve_single_def Let_def ex_anime_def ex_rating_def ex_trakt_def
        ex_episodes_def ex_ids_def truthy_int_def older_rating_wins_def datetime_lt_def
        existing_eps_def map_episode_to_trakt_def is_special_def)

text \<open>
  C2. For a local entry with identifiers, on any Trakt entry or none: resolution
  succeeds, \<open>episodes_to_sync\<close> is the list of the watched episodes, in their order, whose
  translated pair is not among the remote pairs; no episode in it translates to a remote
  pair; the Trakt entry is handed on unchanged and only local episodes are reported.
\<close>

theorem episodes_to_sync_additive:
  assumes "mapped_ids a = Some m"
  shows "\<exists>r. resolve_single a te = Inr r \<and>
           episodes_to_sync r = filter (not_on_remote m te) (watched_episodes a) \<and>
           (\<forall>ep \<in> set (episodes_to_sync r). \<forall>s e.
              map_episode_to_trakt ep (Some m) = Inr (s, e) \<longrightarrow> (Some s, Some e) \<notin> existing_eps te) \<and>
           trakt_entry r = te \<and>
           set (episodes_to_sync r) \<subseteq> set (watched_episodes a)"
proof -
  from resolve_single_episodes [OF assms, of te] obtain r where
    r: "resolve_single a te = Inr r" "trakt_entry r = te"
       "episodes_to_sync r = filter (not_on_remote m te) (watched_episodes a)"
    by blast
  have "\<forall>ep \<in> set (episodes_to_sync r). \<forall>s e.
          map_episode_to_trakt ep (Some m) = Inr (s, e) \<longrightarrow> (Some s, Some e) \<notin> existing_eps te"
    by (auto simp add: r(3) not_on_remote_def)
  with r show ?thesis by auto
qed

theorem episodes_to_sync_additive_witness:
  "\<exists>r. resolve_single ex_anime (Some (ex_trakt None)) = Inr r \<and>
        episodes_to_sync r = [ex_episodes ! 1, ex_episodes ! 2, ex_episodes ! 3]"
proof -
  have m: "mapped_ids ex_anime = Some ex_ids"
    by (simp add: ex_anime_def)
  from episodes_to_sync_additive [OF m, of "Some (ex_trakt None)"]
  obtain r where r: "resolve_single ex_anime (Some (ex_trakt None)) = Inr r"
    "episodes_to_sync r =
       filter (not_on_remote ex_ids (Some (ex_trakt None))) (watched_episodes ex_anime)"
    by blast
  have "filter (not_on_remote ex_ids (Some (ex_trakt None))) (watched_episodes ex_anime) =
          [ex_episodes ! 1, ex_episodes ! 2, ex_episodes ! 3]"
    by (simp add: ex_anime_def ex_trakt_def ex_episodes_def ex_ids_def not_on_remote_def
          existing_eps_def map_episode_to_trakt_def is_special_def)
  with r show ?thesis by simp
qed

text \<open>
  C9. Identifiers that are all \<open>None\<close>, \<open>0\<close> or the empty string count as no identifier:
  \<open>has_any_id\<close> is false, an entry carrying them is not mapped, \<open>resolve\<close> passes over it
  (the result is the one for the list without it), and \<open>get_trakt_ids\<close> is empty. For any
  identifiers at all, \<open>get_trakt_ids\<close> holds no value \<open>0\<close> and no empty string.
\<close>

theorem zero_identifier_is_absent:
  assumes "tvdb_id m \<in> {None, Some 0}" and "imdb_id m \<in> {None, Some []}"
    and "tmdb_show_id m \<in> {None, Some 0}" and "tmdb_movie_id m \<in> {None, Some 0}"
    and "mapped_ids a = Some m"
  shows "\<not> has_any_id m \<and> \<not> is_mapped a \<and>
         resolve fetch df (pre @ a # post) fetch_existing = resolve fetch df (pre @ post) fetch_existing \<and>
         get_trakt_ids m = [] \<and>
         IntId 0 \<notin> snd ` set (get_trakt_ids m') \<and> StrId [] \<notin> snd ` set (get_trakt_ids m')"
proof -
  have h: "\<not> has_any_id m"
    using assms(1-4) by (auto simp add: has_any_id_def truthy_int_def truthy_str_def)
  then have nm: "\<not> is_mapped a"
    using assms(5) by (simp add: is_mapped_def)
  have g: "get_trakt_ids m = []"
    using assms(1-4) by (auto simp add: get_trakt_ids_def truthy_int_def truthy_str_def)
  show ?thesis
    using h nm g get_trakt_ids_truthy [of m']
    by (simp add: resolve_def Let_def resolve_loop_skip)
qed

theorem zero_identifier_is_absent_witness:
  "\<not> has_any_id zero_ids \<and> \<not> is_mapped zero_anime \<and>
   resolve (\<lambda>f. f) None [ex_anime, zero_anime] True = resolve (\<lambda>f. f) None [ex_anime] True \<and>
   get_trakt_ids zero_ids = []"
  using zero_identifier_is_absent [of zero_ids zero_anime "\<lambda>f. f" None "[ex_anime]" "[]" True]
  by (simp add: zero_ids_def zero_anime_def ex_anime_def)

text \<open>
  C10. The loop compares each translated pair with the pairs of the Trakt entry only:
  the episodes kept are a filter of the watched episodes by a test that does not look at
  what was kept before. So two different local episodes with the same translated pair,
  absent on Trakt, are both kept: the special and the credits episode numbered 1 both
  translate to season 0, episode 1.
\<close>

theorem duplicate_translated_pairs_both_synced:
  "(\<forall>m te eps acc.
      episodes_loop (Some m) (existing_eps te) eps acc = Inr (acc @ filter (not_on_remote m te) eps)) \<and>
   (\<exists>a te e1 e2 r.
      e1 \<noteq> e2 \<and> is_mapped a \<and> watched_episodes a = [e1, e2] \<and>
      map_episode_to_trakt e1 (mapped_ids a) = Inr (0, 1) \<and>
      map_episode_to_trakt e2 (mapped_ids a) = Inr (0, 1) \<and>
      (Some 0, Some 1) \<notin> existing_eps te \<and>
      resolve_single a te = Inr r \<and> episodes_to_sync r = [e1, e2])"
proof -
  let ?e1 = "\<lparr>episode_number = 1, episode_type = SPECIAL, watched_at = None\<rparr>"
  let ?e2 = "\<lparr>episode_number = 1, episode_type = CREDITS, watched_at = None\<rparr>"
  let ?a = "ex_anime\<lparr>watched_episodes := [?e1, ?e2]\<rparr>"
  let ?te = "Some (ex_trakt None)"
  let ?r = "\<lparr>anime = ?a, trakt_entry = ?te, keep_anidb_rating = True,
             rating_conflict = True, episodes_to_sync = [?e1, ?e2]\<rparr>"
  have "?e1 \<noteq> ?e2 \<and> is_mapped ?a \<and> watched_episodes ?a = [?e1, ?e2] \<and>
        map_episode_to_trakt ?e1 (mapped_ids ?a) = Inr (0, 1) \<and>
        map_episode_to_trakt ?e2 (mapped_ids ?a) = Inr (0, 1) \<and>
        (Some 0, Some 1) \<notin> existing_eps ?te \<and>
        resolve_single ?a ?te = Inr ?r \<and> episodes_to_sync ?r = [?e1, ?e2]"
    by (simp add: resolve_single_def Let_def ex_anime_def ex_rating_def ex_trakt_def ex_ids_def
          is_mapped_def has_any_id_def truthy_int_def older_rating_wins_def
          existing_eps_def map_episode_to_trakt_def is_special_def)
  then have "\<exists>a te e1 e2 r.
      e1 \<noteq> e2 \<and> is_mapped a \<and> watched_episodes a = [e1, e2] \<and>
      map_episode_to_trakt e1 (mapped_ids a) = Inr (0, 1) \<and>
      map_episode_to_trakt e2 (mapped_ids a) = Inr (0, 1) \<and>
      (Some 0, Some 1) \<notin> existing_eps te \<and>
      resolve_single a te = Inr r \<and> episodes_to_sync r = [e1, e2]"
    by blast
  then show ?thesis
    using episodes_loop_filter by blast
qed

section \<open>Properties of the batch sync engine\<close>

subsection \<open>\<open>_sync_batch\<close>, case by case\<close>

text \<open>
  The first send returns: its response is handed on. It raises a \<open>TraktAPIError\<close> below
  500: the batch is recorded, with no sleep and no second send. It raises one from 500 on:
  one sleep of the backoff (at most 60 seconds), one second send; a response is handed on,
  a \<open>TraktAPIError\<close> gets the batch recorded, and any other exception of the second send
  leaves \<open>_sync_batch\<close> with nothing recorded, as does an exception of the sleep. The
  first send raises another \<open>Exception\<close>: the batch is recorded with the exception's
  text.
\<close>

lemma backoff_bounds: "0 \<le> backoff_seconds cf \<and> backoff_seconds cf \<le> 60"
  by (simp add: backoff_seconds_def BACKOFF_BASE_SECONDS_def MAX_BACKOFF_SECONDS_def)

lemma sleep_backoff:
  "backoff_seconds cf \<le> longest_sleep w \<Longrightarrow>
   sleep (backoff_seconds cf) w = Inr (w\<lparr>trace := trace w @ [Slept (backoff_seconds cf)]\<rparr>)"
  using backoff_bounds [of cf] by (simp add: sleep_def)

lemma sync_batch_first_ok:
  "sync_func b w = (Inr r, w1) \<Longrightarrow> sync_batch sync_func b n tb cf res bt w = (Inr r, res, w1)"
  by (simp add: sync_batch_def)

lemma sync_batch_server_error:
  assumes "sync_func b w = (Inl (TraktAPIError msg st), w1)" and "500 \<le> st"
    and "backoff_seconds cf \<le> longest_sleep w1"
  shows "sync_batch sync_func b n tb cf res bt w =
           (case sync_func b (w1\<lparr>trace := trace w1 @ [Slept (backoff_seconds cf)]\<rparr>) of
              (Inr r, w3) \<Rightarrow> (Inr r, res, w3)
            | (Inl e, w3) \<Rightarrow>
                (case api_status e of
                   Some _ \<Rightarrow> (Inr JNull,
                              record_failed res bt b (bt @ '' batch '' @ str_nat n @ '' failed''), w3)
                 | None \<Rightarrow> (Inl e, res, w3)))"
  using assms
  by (simp add: sync_batch_def Let_def sleep_backoff split: prod.splits sum.splits option.splits)

lemma sync_batch_retry_unexpected:
  assumes "sync_func b w = (Inl (TraktAPIError msg st), w1)" and "500 \<le> st"
    and "backoff_seconds cf \<le> longest_sleep w1"
    and "sync_func b (w1\<lparr>trace := trace w1 @ [Slept (backoff_seconds cf)]\<rparr>) = (Inl e, w2)"
    and "api_status e = None"
  shows "sync_batch sync_func b n tb cf res bt w = (Inl e, res, w2)"
  using assms by (simp add: sync_batch_server_error)

lemma sync_batch_sleep_refused:
  assumes "sync_func b w = (Inl (TraktAPIError msg st), w1)" and "500 \<le> st"
    and "sleep (backoff_seconds cf) w1 = Inl e"
  shows "sync_batch sync_func b n tb cf res bt w = (Inl e, res, w1)"
  using assms by (simp add: sync_batch_def Let_def)





subsection \<open>The loops and the circuit breaker\<close>

text \<open>
  The two loops against \<open>attempts\<close>: as long as no three failures in a row have been
  seen, a loop run from the counter \<open>trailing_failures outcomes\<close> over the next \<open>m\<close>
  batches either returns after the last of them, when that one is the third failure in a
  row, or stands where \<open>attempts\<close> stands.
\<close>

lemma trailing_failures_Nil [simp]: "trailing_failures [] = 0"
  by (simp add: trailing_failures_def)

lemma trailing_failures_failed [simp]:
  "trailing_failures (outcomes @ [True]) = Suc (trailing_failures outcomes)"
  by (simp add: trailing_failures_def)

lemma trailing_failures_ok [simp]: "trailing_failures (outcomes @ [False]) = 0"
  by (simp add: trailing_failures_def)

lemma attempts_outcomes:
  "attempts sends count outcomes res w = Some (outcomes', res', w') \<Longrightarrow>
   length outcomes' = length outcomes + length sends \<and> take (length outcomes) outcomes' = outcomes"
proof (induction sends arbitrary: outcomes res w)
  case Nil
  then show ?case by simp
next
  case (Cons send sends)
  from Cons.prems obtain b res1 w1 where
    "attempts sends count (outcomes @ [b]) res1 w1 = Some (outcomes', res', w')"
    by (auto split: prod.splits sum.splits if_splits option.splits)
  from Cons.IH [OF this] have l: "length outcomes' = length outcomes + 1 + length sends"
    and t: "take (length outcomes + 1) outcomes' = outcomes @ [b]" by simp_all
  have "take (length outcomes) (take (length outcomes + 1) outcomes') = outcomes"
    unfolding t by simp
  then show ?case using l by (simp add: min_def)
qed

lemma attempts_append:
  "attempts (xs @ ys) count outcomes res w =
     (case attempts xs count outcomes res w of
        None \<Rightarrow> None
      | Some (outcomes1, res1, w1) \<Rightarrow> attempts ys count outcomes1 res1 w1)"
  by (induction xs arbitrary: outcomes res w)
     (auto split: prod.splits sum.splits option.splits)

lemma length_batch_sends [simp]: "length (batch_sends send i m) = m"
  by (induction m arbitrary: i) simp_all

lemma take_batch_sends: "k \<le> m \<Longrightarrow> take k (batch_sends send i m) = batch_sends send i k"
proof (induction m arbitrary: i k)
  case 0
  then show ?case by simp
next
  case (Suc m)
  then show ?case by (cases k) simp_all
qed

lemma take_batch_sends_min: "take k (batch_sends send i m) = batch_sends send i (min k m)"
proof (cases "k \<le> m")
  case True
  then show ?thesis using take_batch_sends [of k m send i] by (simp add: min_absorb1)
next
  case False
  then show ?thesis by (simp add: min_absorb2)
qed

lemma batch_sends_pos:
  "0 < m \<Longrightarrow> batch_sends send i m = send i # batch_sends send (i + BATCH_SIZE) (m - 1)"
  by (cases m) simp_all

lemma sync_ratings_loop_attempts:
  assumes "attempts (batch_sends (ratings_send c all_items tb) i m) count_ratings outcomes res w =
             Some (outcomes', res', w')"
    and "0 < m \<longrightarrow> i + (m - 1) * BATCH_SIZE < length all_items"
    and "\<forall>j. length outcomes \<le> j \<and> j < length outcomes' \<longrightarrow>
             trailing_failures (take j outcomes') < MAX_CONSECUTIVE_FAILURES"
  shows "sync_ratings_loop c all_items tb i (trailing_failures outcomes) res w =
           (if 0 < m \<and> MAX_CONSECUTIVE_FAILURES \<le> trailing_failures outcomes'
            then (Returned, res'\<lparr>stopped_early := True\<rparr>, w')
            else sync_ratings_loop c all_items tb (i + m * BATCH_SIZE)
                   (trailing_failures outcomes') res' w')"
  using assms
proof (induction m arbitrary: i outcomes res w)
  case 0
  then show ?case by simp
next
  case (Suc m)
  have i: "\<not> length all_items \<le> i" using Suc.prems(2) by simp
  have bound: "0 < m \<longrightarrow> (i + BATCH_SIZE) + (m - 1) * BATCH_SIZE < length all_items"
    using Suc.prems(2) by (cases m) (simp_all add: algebra_simps)
  obtain r res1 w1 where
    s: "ratings_send c all_items tb i (trailing_failures outcomes) res w = (r, res1, w1)"
    by (metis prod_cases3)
  show ?case
  proof (cases r)
    case (Inl e)
    then show ?thesis using Suc.prems(1) s by simp
  next
    case (Inr response)
    show ?thesis
    proof (cases "response = JNull")
      case True
      have rest: "attempts (batch_sends (ratings_send c all_items tb) (i + BATCH_SIZE) m) count_ratings
                    (outcomes @ [True]) res1 w1 = Some (outcomes', res', w')"
        using Suc.prems(1) s Inr True by simp
      note o = attempts_outcomes [OF rest]
      show ?thesis
      proof (cases "MAX_CONSECUTIVE_FAILURES \<le> trailing_failures outcomes + 1")
        case open_now: True
        have "m = 0"
        proof (rule ccontr)
          assume "m \<noteq> 0"
          then have "length outcomes \<le> length outcomes + 1 \<and> length outcomes + 1 < length outcomes'"
            using o by simp
          then have "trailing_failures (take (length outcomes + 1) outcomes') < MAX_CONSECUTIVE_FAILURES"
            using Suc.prems(3) by blast
          then show False using o open_now by simp
        qed
        then have "outcomes' = outcomes @ [True]" "res' = res1" "w' = w1" using rest by simp_all
        then show ?thesis
          using s Inr True i open_now
          by (subst sync_ratings_loop.simps) (simp add: ratings_send_def Let_def)
      next
        case closed: False
        have hyp: "\<forall>j. length (outcomes @ [True]) \<le> j \<and> j < length outcomes' \<longrightarrow>
                     trailing_failures (take j outcomes') < MAX_CONSECUTIVE_FAILURES"
          using Suc.prems(3) by simp
        have last: "m = 0 \<longrightarrow> \<not> MAX_CONSECUTIVE_FAILURES \<le> trailing_failures outcomes'"
          using rest closed by auto
        have "sync_ratings_loop c all_items tb i (trailing_failures outcomes) res w =
                sync_ratings_loop c all_items tb (i + BATCH_SIZE) (trailing_failures (outcomes @ [True])) res1 w1"
          using s Inr True i closed
          by (subst sync_ratings_loop.simps) (simp add: ratings_send_def Let_def)
        then show ?thesis
          using Suc.IH [OF rest bound hyp] last by (auto simp add: algebra_simps)
      qed
    next
      case False
      obtain e2 res2 where cnt: "count_ratings response res1 = (e2, res2)" by (metis prod.exhaust)
      have none: "e2 = None" using Suc.prems(1) s Inr False cnt by (cases e2) simp_all
      have rest: "attempts (batch_sends (ratings_send c all_items tb) (i + BATCH_SIZE) m) count_ratings
                    (outcomes @ [False]) res2 w1 = Some (outcomes', res', w')"
        using Suc.prems(1) s Inr False cnt none by simp
      have hyp: "\<forall>j. length (outcomes @ [False]) \<le> j \<and> j < length outcomes' \<longrightarrow>
                   trailing_failures (take j outcomes') < MAX_CONSECUTIVE_FAILURES"
        using Suc.prems(3) by simp
      have last: "m = 0 \<longrightarrow> \<not> MAX_CONSECUTIVE_FAILURES \<le> trailing_failures outcomes'"
        using rest by (auto simp add: MAX_CONSECUTIVE_FAILURES_def)
      have "sync_ratings_loop c all_items tb i (trailing_failures outcomes) res w =
              sync_ratings_loop c all_items tb (i + BATCH_SIZE) (trailing_failures (outcomes @ [False])) res2 w1"
        using s Inr False i cnt none
        by (subst sync_ratings_loop.simps) (simp add: ratings_send_def Let_def)
      then show ?thesis
        using Suc.IH [OF rest bound hyp] last by (auto simp add: algebra_simps)
    qed
  qed
qed

lemma history_batches_attempts:
  assumes "attempts (batch_sends (history_send c item_type items tb) i m) count_history outcomes res w =
             Some (outcomes', res', w')"
    and "0 < m \<longrightarrow> i + (m - 1) * BATCH_SIZE < length items"
    and "\<forall>j. length outcomes \<le> j \<and> j < length outcomes' \<longrightarrow>
             trailing_failures (take j outcomes') < MAX_CONSECUTIVE_FAILURES"
  shows "history_batches c item_type items tb i (trailing_failures outcomes) res w =
           (if 0 < m \<and> MAX_CONSECUTIVE_FAILURES \<le> trailing_failures outcomes'
            then (Returned, res'\<lparr>stopped_early := True\<rparr>, w')
            else history_batches c item_type items tb (i + m * BATCH_SIZE)
                   (trailing_failures outcomes') res' w')"
  using assms
proof (induction m arbitrary: i outcomes res w)
  case 0
  then show ?case by simp
next
  case (Suc m)
  have i: "\<not> length items \<le> i" using Suc.prems(2) by simp
  have bound: "0 < m \<longrightarrow> (i + BATCH_SIZE) + (m - 1) * BATCH_SIZE < length items"
    using Suc.prems(2) by (cases m) (simp_all add: algebra_simps)
  obtain r res1 w1 where
    s: "history_send c item_type items tb i (trailing_failures outcomes) res w = (r, res1, w1)"
    by (metis prod_cases3)
  show ?case
  proof (cases r)
    case (Inl e)
    then show ?thesis using Suc.prems(1) s by simp
  next
    case (Inr response)
    show ?thesis
    proof (cases "response = JNull")
      case True
      have rest: "attempts (batch_sends (history_send c item_type items tb) (i + BATCH_SIZE) m) count_history
                    (outcomes @ [True]) res1 w1 = Some (outcomes', res', w')"
        using Suc.prems(1) s Inr True by simp
      note o = attempts_outcomes [OF rest]
      show ?thesis
      proof (cases "MAX_CONSECUTIVE_FAILURES \<le> trailing_failures outcomes + 1")
        case open_now: True
        have "m = 0"
        proof (rule ccontr)
          assume "m \<noteq> 0"
          then have "length outcomes \<le> length outcomes + 1 \<and> length outcomes + 1 < length outcomes'"
            using o by simp
          then have "trailing_failures (take (length outcomes + 1) outcomes') < MAX_CONSECUTIVE_FAILURES"
            using Suc.prems(3) by blast
          then show False using o open_now by simp
        qed
        then have "outcomes' = outcomes @ [True]" "res' = res1" "w' = w1" using rest by simp_all
        then show ?thesis
          using s Inr True i open_now
          by (subst history_batches.simps) (simp add: history_send_def Let_def)
      next
        case closed: False
        have hyp: "\<forall>j. length (outcomes @ [True]) \<le> j \<and> j < length outcomes' \<longrightarrow>
                     trailing_failures (take j outcomes') < MAX_CONSECUTIVE_FAILURES"
          using Suc.prems(3) by simp
        have last: "m = 0 \<longrightarrow> \<not> MAX_CONSECUTIVE_FAILURES \<le> trailing_failures outcomes'"
          using rest closed by auto
        have "history_batches c item_type items tb i (trailing_failures outcomes) res w =
                history_batches c item_type items tb (i + BATCH_SIZE) (trailing_failures (outcomes @ [True])) res1 w1"
          using s Inr True i closed
          by (subst history_batches.simps) (simp add: history_send_def Let_def)
        then show ?thesis
          using Suc.IH [OF rest bound hyp] last by (auto simp add: algebra_simps)
      qed
    next
      case False
      obtain e2 res2 where cnt: "count_history response res1 = (e2, res2)" by (metis prod.exhaust)
      have none: "e2 = None" using Suc.prems(1) s Inr False cnt by (cases e2) simp_all
      have rest: "attempts (batch_sends (history_send c item_type items tb) (i + BATCH_SIZE) m) count_history
                    (outcomes @ [False]) res2 w1 = Some (outcomes', res', w')"
        using Suc.prems(1) s Inr False cnt none by simp
      have hyp: "\<forall>j. length (outcomes @ [False]) \<le> j \<and> j < length outcomes' \<longrightarrow>
                   trailing_failures (take j outcomes') < MAX_CONSECUTIVE_FAILURES"
        using Suc.prems(3) by simp
      have last: "m = 0 \<longrightarrow> \<not> MAX_CONSECUTIVE_FAILURES \<le> trailing_failures outcomes'"
        using rest by (auto simp add: MAX_CONSECUTIVE_FAILURES_def)
      have "history_batches c item_type items tb i (trailing_failures outcomes) res w =
              history_batches c item_type items tb (i + BATCH_SIZE) (trailing_failures (outcomes @ [False])) res2 w1"
        using s Inr False i cnt none
        by (subst history_batches.simps) (simp add: history_send_def Let_def)
      then show ?thesis
        using Suc.IH [OF rest bound hyp] last by (auto simp add: algebra_simps)
    qed
  qed
qed

lemma batch_count_covers: "n \<le> batch_count n * BATCH_SIZE"
proof -
  have "n + 49 = (n + 49) div 50 * 50 + (n + 49) mod 50" by simp
  moreover have "(n + 49) mod 50 < 50" by simp
  ultimately have "n + 49 < (n + 49) div 50 * 50 + 50" by linarith
  then show ?thesis by (simp add: batch_count_def BATCH_SIZE_def)
qed

lemma batch_count_last:
  assumes "0 < k" and "k \<le> batch_count n"
  shows "(k - 1) * BATCH_SIZE < n"
proof -
  have "(n + 49) div 50 * 50 \<le> n + 49" by simp
  moreover have "k * 50 \<le> (n + 49) div 50 * 50"
    using assms(2) by (simp add: batch_count_def BATCH_SIZE_def)
  ultimately have "k * 50 \<le> n + 49" by linarith
  moreover have "k * 50 = (k - 1) * 50 + 50" using assms(1) by (cases k) simp_all
  ultimately show ?thesis by (simp add: BATCH_SIZE_def)
qed

lemma batch_count_pos: "0 < batch_count n \<Longrightarrow> 0 < n"
  by (cases n) (simp_all add: batch_count_def BATCH_SIZE_def)

lemma third_failure_nonempty: "third_failure_at_end outcomes \<Longrightarrow> outcomes \<noteq> []"
  by (auto simp add: third_failure_at_end_def MAX_CONSECUTIVE_FAILURES_def)

lemma sync_ratings_items:
  "sync_ratings c ratings_data res w =
     (if rating_items ratings_data = [] then (Returned, res, w)
      else sync_ratings_loop c (rating_items ratings_data)
             (batch_count (length (rating_items ratings_data))) 0 0 res w)"
  by (simp add: sync_ratings_def rating_items_def batch_count_def Let_def)

lemma sync_ratings_stops:
  assumes "attempts (take k (ratings_sends c ratings_data)) count_ratings [] res w =
             Some (outcomes, res', w')"
    and "third_failure_at_end outcomes"
  shows "sync_ratings c ratings_data res w = (Returned, res'\<lparr>stopped_early := True\<rparr>, w')"
proof -
  let ?items = "rating_items ratings_data"
  let ?tb = "batch_count (length ?items)"
  let ?k = "min k ?tb"
  have tk: "take k (ratings_sends c ratings_data) = batch_sends (ratings_send c ?items ?tb) 0 ?k"
    by (simp only: ratings_sends_def take_batch_sends_min)
  have a: "attempts (batch_sends (ratings_send c ?items ?tb) 0 ?k) count_ratings [] res w =
             Some (outcomes, res', w')"
    using assms(1) tk by simp
  have "length outcomes = ?k" using attempts_outcomes [OF a] by simp
  then have kpos: "0 < ?k" using third_failure_nonempty [OF assms(2)] by (cases ?k) simp_all
  then have items: "?items \<noteq> []" using batch_count_pos [of "length ?items"] by auto
  have bound: "0 < ?k \<longrightarrow> 0 + (?k - 1) * BATCH_SIZE < length ?items"
    using batch_count_last [of ?k "length ?items"] by simp
  have hyp: "\<forall>j. length ([]::bool list) \<le> j \<and> j < length outcomes \<longrightarrow>
               trailing_failures (take j outcomes) < MAX_CONSECUTIVE_FAILURES"
    using assms(2) by (simp add: third_failure_at_end_def)
  have "sync_ratings_loop c ?items ?tb 0 (trailing_failures []) res w =
          (Returned, res'\<lparr>stopped_early := True\<rparr>, w')"
    using sync_ratings_loop_attempts [OF a bound hyp] kpos assms(2)
    by (simp add: third_failure_at_end_def)
  then show ?thesis
    using items by (simp add: sync_ratings_items)
qed

lemma history_batches_done:
  "length items \<le> i \<Longrightarrow> history_batches c item_type items tb i cf res w = (Completed cf, res, w)"
  by (subst history_batches.simps) simp

lemma sync_history_stops_bounded:
  assumes "attempts (take k (history_sends c history_data)) count_history [] res w =
             Some (outcomes, res', w')"
    and "third_failure_at_end outcomes"
    and "k \<le> length (history_sends c history_data)"
  shows "sync_history c history_data res w = (Returned, res'\<lparr>stopped_early := True\<rparr>, w')"
proof -
  let ?S = "payload_get history_data ''shows''"
  let ?M = "payload_get history_data ''movies''"
  let ?nS = "batch_count (length ?S)"
  let ?nM = "batch_count (length ?M)"
  let ?sS = "history_send c ''shows'' ?S ?nS"
  let ?sM = "history_send c ''movies'' ?M ?nM"
  have all: "\<forall>j < length outcomes. trailing_failures (take j outcomes) < MAX_CONSECUTIVE_FAILURES"
    and top: "MAX_CONSECUTIVE_FAILURES \<le> trailing_failures outcomes"
    using assms(2) by (simp_all add: third_failure_at_end_def)
  have kle: "k \<le> ?nS + ?nM" using assms(3) by (simp add: history_sends_def kind_sends_def)
  show ?thesis
  proof (cases "k \<le> ?nS")
    case True
    have tk: "take k (history_sends c history_data) = batch_sends ?sS 0 k"
      using True take_batch_sends [of k ?nS ?sS 0] by (simp add: history_sends_def kind_sends_def)
    have a: "attempts (batch_sends ?sS 0 k) count_history [] res w = Some (outcomes, res', w')"
      using assms(1) tk by simp
    have "length outcomes = k" using attempts_outcomes [OF a] by simp
    then have kpos: "0 < k" using third_failure_nonempty [OF assms(2)] by (cases k) simp_all
    then have S: "?S \<noteq> []" using True batch_count_pos [of "length ?S"] by auto
    have bound: "0 < k \<longrightarrow> 0 + (k - 1) * BATCH_SIZE < length ?S"
      using batch_count_last [of k "length ?S"] True by simp
    have hyp: "\<forall>j. length ([]::bool list) \<le> j \<and> j < length outcomes \<longrightarrow>
                 trailing_failures (take j outcomes) < MAX_CONSECUTIVE_FAILURES"
      using all by simp
    have "history_batches c ''shows'' ?S ?nS 0 (trailing_failures []) res w =
            (Returned, res'\<lparr>stopped_early := True\<rparr>, w')"
      using history_batches_attempts [OF a bound hyp] kpos top by simp
    then show ?thesis
      using S by (simp add: sync_history_def batch_count_def Let_def)
  next
    case False
    define m where "m = k - ?nS"
    have mpos: "0 < m" and mle: "m \<le> ?nM" using False kle by (simp_all add: m_def)
    have "take k (history_sends c history_data) =
            take k (batch_sends ?sS 0 ?nS) @ take m (batch_sends ?sM 0 ?nM)"
      by (simp add: history_sends_def kind_sends_def m_def)
    moreover have "take k (batch_sends ?sS 0 ?nS) = batch_sends ?sS 0 ?nS"
      using False by simp
    moreover have "take m (batch_sends ?sM 0 ?nM) = batch_sends ?sM 0 m"
      using mle by (rule take_batch_sends)
    ultimately have tk:
      "take k (history_sends c history_data) = batch_sends ?sS 0 ?nS @ batch_sends ?sM 0 m"
      by simp
    obtain oS resS wS where
      aS: "attempts (batch_sends ?sS 0 ?nS) count_history [] res w = Some (oS, resS, wS)"
      and aM: "attempts (batch_sends ?sM 0 m) count_history oS resS wS = Some (outcomes, res', w')"
      using assms(1) unfolding tk attempts_append by (auto split: option.splits)
    note lS = attempts_outcomes [OF aS]
    note lM = attempts_outcomes [OF aM]
    have M: "?M \<noteq> []" using mpos mle batch_count_pos [of "length ?M"] by auto
    have oS: "trailing_failures oS < MAX_CONSECUTIVE_FAILURES"
      using all [rule_format, of "length oS"] lM mpos by simp
    have boundM: "0 < m \<longrightarrow> 0 + (m - 1) * BATCH_SIZE < length ?M"
      using batch_count_last [of m "length ?M"] mle by simp
    have hypM: "\<forall>j. length oS \<le> j \<and> j < length outcomes \<longrightarrow>
                  trailing_failures (take j outcomes) < MAX_CONSECUTIVE_FAILURES"
      using all by simp
    have movies: "history_batches c ''movies'' ?M ?nM 0 (trailing_failures oS) resS wS =
                    (Returned, res'\<lparr>stopped_early := True\<rparr>, w')"
      using history_batches_attempts [OF aM boundM hypM] mpos top by simp
    have shows_done: "?S \<noteq> [] \<longrightarrow>
                   history_batches c ''shows'' ?S ?nS 0 0 res w = (Completed (trailing_failures oS), resS, wS)"
    proof
      assume S: "?S \<noteq> []"
      then have nS: "0 < ?nS" by (cases ?S) (simp_all add: batch_count_def BATCH_SIZE_def)
      have boundS: "0 < ?nS \<longrightarrow> 0 + (?nS - 1) * BATCH_SIZE < length ?S"
        using batch_count_last [of ?nS "length ?S"] by simp
      have hypS: "\<forall>j. length ([]::bool list) \<le> j \<and> j < length oS \<longrightarrow>
                    trailing_failures (take j oS) < MAX_CONSECUTIVE_FAILURES"
      proof (intro allI impI)
        fix j assume j: "length ([]::bool list) \<le> j \<and> j < length oS"
        then have "take j oS = take j (take (length oS) outcomes)" using lM by simp
        also have "\<dots> = take j outcomes" using j by (simp add: min_absorb1)
        finally show "trailing_failures (take j oS) < MAX_CONSECUTIVE_FAILURES"
          using all [rule_format, of j] j lM by simp
      qed
      have "history_batches c ''shows'' ?S ?nS 0 (trailing_failures []) res w =
              history_batches c ''shows'' ?S ?nS (0 + ?nS * BATCH_SIZE) (trailing_failures oS) resS wS"
        using history_batches_attempts [OF aS boundS hypS] oS by simp
      also have "\<dots> = (Completed (trailing_failures oS), resS, wS)"
        using batch_count_covers [of "length ?S"] by (simp add: history_batches_done)
      finally show "history_batches c ''shows'' ?S ?nS 0 0 res w =
                      (Completed (trailing_failures oS), resS, wS)" by simp
    qed
    have none: "?S = [] \<longrightarrow> oS = [] \<and> resS = res \<and> wS = w"
      using aS by (auto simp add: batch_count_def BATCH_SIZE_def)
    show ?thesis
    proof (cases "?S = []")
      case True
      then show ?thesis
        using none movies M by (simp add: sync_history_def batch_count_def Let_def)
    next
      case False
      then show ?thesis
        using shows_done movies M by (simp add: sync_history_def batch_count_def Let_def)
    qed
  qed
qed

lemma sync_history_stops:
  assumes "attempts (take k (history_sends c history_data)) count_history [] res w =
             Some (outcomes, res', w')"
    and "third_failure_at_end outcomes"
  shows "sync_history c history_data res w = (Returned, res'\<lparr>stopped_early := True\<rparr>, w')"
proof -
  let ?k = "min k (length (history_sends c history_data))"
  have "take ?k (history_sends c history_data) = take k (history_sends c history_data)"
    by (simp add: min_def)
  then have "attempts (take ?k (history_sends c history_data)) count_history [] res w =
               Some (outcomes, res', w')"
    using assms(1) by simp
  then show ?thesis
    using assms(2) by (rule sync_history_stops_bounded) simp
qed

lemma rating_items_nonempty: "rating_items ratings_data \<noteq> [] \<Longrightarrow> ratings_data \<noteq> []"
  by (auto simp add: rating_items_def payload_get_def)

lemma save_failed_batches_trace [simp]:
  "trace (save_failed_batches res output_dir w) = trace w"
  "served (save_failed_batches res output_dir w) = served w"
  "server (save_failed_batches res output_dir w) = server w"
  by (simp_all add: save_failed_batches_def split: option.splits)

lemma history_phase_stopped:
  "stopped_early res \<Longrightarrow> history_phase c history_data do_history dry_run res w = (Completed 0, res, w)"
  by (simp add: history_phase_def split: option.splits)

lemma sync_stops_after_ratings:
  assumes "is_authenticated c"
    and "attempts (take k (ratings_sends c ratings_data)) count_ratings [] init_results w =
           Some (outcomes, res', w')"
    and "third_failure_at_end outcomes"
  shows "sync c (Some ratings_data) hist True do_history False output_dir w =
           (Inr (res'\<lparr>stopped_early := True\<rparr>),
            save_failed_batches (res'\<lparr>stopped_early := True\<rparr>) output_dir w')"
proof -
  have r: "sync_ratings c ratings_data init_results w = (Returned, res'\<lparr>stopped_early := True\<rparr>, w')"
    using assms(2,3) by (rule sync_ratings_stops)
  have "rating_items ratings_data \<noteq> []"
  proof
    assume "rating_items ratings_data = []"
    then have "init_results = res'\<lparr>stopped_early := True\<rparr>"
      using r by (simp add: sync_ratings_items)
    then have "stopped_early init_results = stopped_early (res'\<lparr>stopped_early := True\<rparr>)"
      by simp
    then show False by (simp add: init_results_def)
  qed
  then have "ratings_data \<noteq> []" by (rule rating_items_nonempty)
  then show ?thesis
    using assms(1) r by (simp add: sync_def ratings_phase_def history_phase_stopped)
qed

lemma sync_skips_history:
  assumes "is_authenticated c"
    and "ratings_phase c ratings_data do_ratings dry_run init_results w = (ex, res1, w1)"
    and "stopped_early res1"
  shows "trace (snd (sync c ratings_data history_data do_ratings do_history dry_run output_dir w)) = trace w1 \<and>
         served (snd (sync c ratings_data history_data do_ratings do_history dry_run output_dir w)) = served w1 \<and>
         ((\<forall>e. ex \<noteq> Raised e) \<longrightarrow>
            sync c ratings_data history_data do_ratings do_history dry_run output_dir w =
              (Inr res1, save_failed_batches res1 output_dir w1))"
proof (cases ex)
  case (Raised e)
  then show ?thesis using assms by (cases e) (simp_all add: sync_def Let_def)
next
  case Returned
  then show ?thesis using assms by (simp add: sync_def history_phase_stopped)
next
  case (Completed k)
  then show ?thesis using assms by (simp add: sync_def history_phase_stopped)
qed

lemma group_batch_same_key:
  "group_batch (replicate n (k, x)) [(k, xs)] = [(k, xs @ replicate n x)]"
  by (induction n arbitrary: xs) (simp_all add: replicate_app_Cons_same)

lemma group_batch_replicate:
  "0 < n \<Longrightarrow> group_batch (replicate n (k, x)) [] = [(k, replicate n x)]"
  using group_batch_same_key [of "n - 1" k x "[x]"] by (cases n) simp_all

text \<open>The definitions that the runs on concrete worlds unfold.\<close>

lemmas run_defs =
  sync_def ratings_phase_def history_phase_def sync_ratings_def sync_history_def
  payload_get_def sync_batch_def TraktClient_def request_def rate_limit_def exchange_def
  sleep_def backoff_seconds_def BACKOFF_BASE_SECONDS_def MAX_BACKOFF_SECONDS_def BATCH_SIZE_def
  MAX_CONSECUTIVE_FAILURES_def init_results_def record_failed_def world_of_def
  plain_response_def save_failed_batches_def Let_def

lemmas loop_defs = ratings_send_def history_send_def sync_ratings_loop.simps
  history_batches.simps request_loop.simps group_batch_replicate

lemma count_empty_response:
  "count_ratings (JObj []) res = (None, res)" "count_history (JObj []) res = (None, res)"
  by (simp_all add: count_ratings_def count_history_def added_sum_def not_found_len_def
        and_then_def counter_add_def)

lemmas sends_defs = ratings_sends_def history_sends_def kind_sends_def rating_items_def
  batch_count_def take_batch_sends_min batch_sends_pos count_empty_response trailing_failures_def

lemma flaky_ratings:
  "\<exists>res' w'. attempts (take 5 (ratings_sends (TraktClient True) more_shows)) count_ratings []
                  init_results flaky_world = Some ([True, False, True, True, True], res', w') \<and>
               served w' = 9"
  by (simp add: run_defs loop_defs sends_defs flaky_world_def more_shows_def)

lemma third_failure_examples:
  "third_failure_at_end [True, False, True, True, True]"
  "third_failure_at_end [True, True, True]"
  by (simp_all add: third_failure_at_end_def MAX_CONSECUTIVE_FAILURES_def trailing_failures_def
        All_less_Suc)

lemma failing_shows:
  "\<exists>res' w'. attempts (take 3 (history_sends (TraktClient True) many_shows_one_movie)) count_history []
                  init_results failing_world = Some ([True, True, True], res', w') \<and>
               served w' = 6"
  by (simp add: run_defs loop_defs sends_defs failing_world_def many_shows_one_movie_def)

lemma failing_shows_and_movies:
  "\<exists>res' w'. attempts (take 3 (history_sends (TraktClient True) shows_and_movies)) count_history []
                  init_results failing_world = Some ([True, True, True], res', w') \<and>
               served w' = 6 \<and>
               map fb_type (failed_batches res') = [''history/shows'', ''history/shows'', ''history/movies'']"
  by (simp add: run_defs loop_defs sends_defs failing_world_def shows_and_movies_def)

text \<open>
  C4. Circuit breaker. Send the batches of a ratings payload in their order, any number
  of them, with no breaker (\<open>attempts\<close>). When their outcomes end with the third failure
  in a row and hold no three failures in a row before, \<open>_sync_ratings\<close> returns with the
  results of exactly these batches, with \<open>stopped_early\<close> set, in the world that the last
  of them left: it stops right after the third consecutive failure, neither earlier nor
  later, whether or not a failed batch went through its retry, and a success in between
  starts the count again. The same holds of \<open>_sync_history\<close> over the batches of the
  shows followed by those of the movies: the count runs on from the shows to the movies,
  and a breaker that opens within the shows ends the movies as well. When the ratings
  stop in this way, \<open>sync\<close> returns these results and its world is the one the last
  ratings batch left, apart from the file of failed batches; and whenever the ratings
  phase ends with \<open>stopped_early\<close> set, \<open>sync\<close> sends no request after it: the history
  is not attempted.
\<close>

theorem circuit_breaker:
  "(attempts (take k (ratings_sends c ratings_data)) count_ratings [] res w =
      Some (outcomes, res', w') \<and>
    third_failure_at_end outcomes
    \<longrightarrow> sync_ratings c ratings_data res w = (Returned, res'\<lparr>stopped_early := True\<rparr>, w')) \<and>
   (attempts (take k (history_sends c history_data)) count_history [] res w =
      Some (outcomes, res', w') \<and>
    third_failure_at_end outcomes
    \<longrightarrow> sync_history c history_data res w = (Returned, res'\<lparr>stopped_early := True\<rparr>, w')) \<and>
   (is_authenticated c \<and>
    attempts (take k (ratings_sends c ratings_data)) count_ratings [] init_results w =
      Some (outcomes, res', w') \<and>
    third_failure_at_end outcomes
    \<longrightarrow> sync c (Some ratings_data) hist True do_history False output_dir w =
          (Inr (res'\<lparr>stopped_early := True\<rparr>),
           save_failed_batches (res'\<lparr>stopped_early := True\<rparr>) output_dir w')) \<and>
   (is_authenticated c \<and>
    ratings_phase c ratings_opt do_ratings dry_run init_results w = (ex, res_r, w_r) \<and>
    stopped_early res_r
    \<longrightarrow> trace (snd (sync c ratings_opt hist do_ratings do_history dry_run output_dir w)) = trace w_r \<and>
        served (snd (sync c ratings_opt hist do_ratings do_history dry_run output_dir w)) = served w_r \<and>
        ((\<forall>e. ex \<noteq> Raised e) \<longrightarrow>
           sync c ratings_opt hist do_ratings do_history dry_run output_dir w =
             (Inr res_r, save_failed_batches res_r output_dir w_r)))"
  using sync_ratings_stops [of k c ratings_data res w outcomes res' w']
    sync_history_stops [of k c history_data res w outcomes res' w']
    sync_stops_after_ratings [of c k ratings_data w outcomes res' w' hist do_history output_dir]
    sync_skips_history [of c ratings_opt do_ratings dry_run w ex res_r w_r hist do_history output_dir]
  by blast

theorem circuit_breaker_witness:
  "(\<exists>res w. sync_ratings (TraktClient True) more_shows init_results flaky_world = (Returned, res, w) \<and>
            stopped_early res \<and> served w = 9) \<and>
   (\<exists>res w. sync_history (TraktClient True) many_shows_one_movie init_results failing_world =
              (Returned, res, w) \<and> stopped_early res \<and> served w = 6) \<and>
   (\<exists>res w. sync_history (TraktClient True) shows_and_movies init_results failing_world =
              (Returned, res, w) \<and> stopped_early res \<and> served w = 6 \<and>
            map fb_type (failed_batches res) = [''history/shows'', ''history/shows'', ''history/movies'']) \<and>
   (\<exists>res w. sync (TraktClient True) (Some more_shows) (Some shows_and_movies) True True False
               None flaky_world = (Inr res, w) \<and> stopped_early res \<and> served w = 9)"
proof -
  obtain ra wa where a:
      "attempts (take 5 (ratings_sends (TraktClient True) more_shows)) count_ratings []
         init_results flaky_world = Some ([True, False, True, True, True], ra, wa)"
      "served wa = 9"
    using flaky_ratings by blast
  have 1: "sync_ratings (TraktClient True) more_shows init_results flaky_world =
             (Returned, ra\<lparr>stopped_early := True\<rparr>, wa)"
    using a(1) third_failure_examples(1)
      circuit_breaker [where k = 5 and c = "TraktClient True" and ratings_data = more_shows
        and res = init_results and w = flaky_world and outcomes = "[True, False, True, True, True]"
        and res' = ra and w' = wa, THEN conjunct1]
    by simp
  obtain rb wb where b:
      "attempts (take 3 (history_sends (TraktClient True) many_shows_one_movie)) count_history []
         init_results failing_world = Some ([True, True, True], rb, wb)"
      "served wb = 6"
    using failing_shows by blast
  have 2: "sync_history (TraktClient True) many_shows_one_movie init_results failing_world =
             (Returned, rb\<lparr>stopped_early := True\<rparr>, wb)"
    using b(1) third_failure_examples(2)
      circuit_breaker [where k = 3 and c = "TraktClient True" and history_data = many_shows_one_movie
        and res = init_results and w = failing_world and outcomes = "[True, True, True]"
        and res' = rb and w' = wb, THEN conjunct2, THEN conjunct1]
    by simp
  obtain rc wc where c:
      "attempts (take 3 (history_sends (TraktClient True) shows_and_movies)) count_history []
         init_results failing_world = Some ([True, True, True], rc, wc)"
      "served wc = 6"
      "map fb_type (failed_batches rc) = [''history/shows'', ''history/shows'', ''history/movies'']"
    using failing_shows_and_movies by auto
  have 3: "sync_history (TraktClient True) shows_and_movies init_results failing_world =
             (Returned, rc\<lparr>stopped_early := True\<rparr>, wc)"
    using c(1) third_failure_examples(2)
      circuit_breaker [where k = 3 and c = "TraktClient True" and history_data = shows_and_movies
        and res = init_results and w = failing_world and outcomes = "[True, True, True]"
        and res' = rc and w' = wc, THEN conjunct2, THEN conjunct1]
    by simp
  have 4: "sync (TraktClient True) (Some more_shows) (Some shows_and_movies) True True False
             None flaky_world =
             (Inr (ra\<lparr>stopped_early := True\<rparr>),
              save_failed_batches (ra\<lparr>stopped_early := True\<rparr>) None wa)"
    using a(1) third_failure_examples(1)
      circuit_breaker [where k = 5 and c = "TraktClient True" and ratings_data = more_shows
        and w = flaky_world and outcomes = "[True, False, True, True, True]"
        and res' = ra and w' = wa and hist = "Some shows_and_movies" and do_history = True
        and output_dir = None, THEN conjunct2, THEN conjunct2, THEN conjunct1]
    by (simp add: TraktClient_def)
  show ?thesis
    using 1 2 3 4 a(2) b(2) c(2,3) by simp
qed

text \<open>
  C5. The retry of \<open>_sync_batch\<close> is guarded by \<open>except TraktAPIError\<close> only.
  Here the first send of a ratings batch is answered 503 and the retry 200 with a body
  that is not JSON: the \<open>ValueError\<close> of \<open>response.json()\<close> leaves \<open>_sync_batch\<close>, the
  loop and \<open>sync\<close>; no batch is recorded as failed and no file is written.
\<close>

theorem retry_exception_escapes_sync:
  "sync (TraktClient True) (Some one_show) None True True False (Some ''out'') bad_retry_world =
     (Inl (ValueError ''Expecting value''),
      bad_retry_world\<lparr>served := 2,
         trace := [RateLimit True,
                   Sent \<lparr>req_method = POST, req_endpoint = ''/sync/ratings'', req_json = Some one_show\<rparr>,
                   Slept 5, RateLimit True,
                   Sent \<lparr>req_method = POST, req_endpoint = ''/sync/ratings'', req_json = Some one_show\<rparr>]\<rparr>)"
  by (simp add: run_defs bad_retry_world_def one_show_def sync_ratings_loop.simps
        request_loop.simps)

section \<open>Properties of the client's retry on 429\<close>
























section \<open>Properties of the checkpoint file\<close>

lemma of_char_digit_char: "k < 10 \<Longrightarrow> of_char (digit_char k) = 48 + k"
  by (simp add: digit_char_def)

lemma digit_value_digit_char: "k < 10 \<Longrightarrow> digit_value (digit_char k) = Some k"
  by (simp add: digit_value_def of_char_digit_char)

lemma digit_char_neq:
  assumes "k < 10" and "(of_char c :: nat) < 48 \<or> 57 < (of_char c :: nat)"
  shows "digit_char k \<noteq> c"
proof
  assume "digit_char k = c"
  then have "(of_char c :: nat) = 48 + k" using of_char_digit_char [OF assms(1)] by simp
  with assms show False by auto
qed

lemma str_nat_four:
  assumes "1000 \<le> y" and "y \<le> 9999"
  shows "str_nat y = [digit_char (y div 1000), digit_char (y div 100 mod 10),
                      digit_char (y div 10 mod 10), digit_char (y mod 10)]"
proof -
  have e: "y div 10 div 10 = y div 100" "y div 100 div 10 = y div 1000"
    by (simp_all add: div_mult2_eq [symmetric])
  have n: "\<not> y < 10" "\<not> y div 10 < 10" "\<not> y div 100 < 10" "y div 1000 < 10"
    using assms by simp_all
  have a: "str_nat y = str_nat (y div 10) @ [digit_char (y mod 10)]"
    using n(1) by (subst str_nat.simps) simp
  have b: "str_nat (y div 10) = str_nat (y div 100) @ [digit_char (y div 10 mod 10)]"
    using n(2) e(1) by (subst str_nat.simps) simp
  have c: "str_nat (y div 100) = str_nat (y div 1000) @ [digit_char (y div 100 mod 10)]"
    using n(3) e(2) by (subst str_nat.simps) simp
  have d: "str_nat (y div 1000) = [digit_char (y div 1000)]"
    using n(4) by (subst str_nat.simps) simp
  show ?thesis unfolding a b c d by simp
qed

lemma replace_from_suffix:
  assumes "old \<noteq> []" and "hd old \<notin> set s"
  shows "replace_from old new (s @ old) = s @ new"
  using assms(2)
proof (induction s)
  case Nil
  have "replace_from old new [] = []" by (subst replace_from.simps) simp
  then show ?case using assms(1) by (subst replace_from.simps) simp
next
  case (Cons c s)
  have "take (length old) (c # s @ old) \<noteq> old"
  proof
    assume "take (length old) (c # s @ old) = old"
    then have "hd old = c" using assms(1) by (cases old) auto
    with Cons.prems show False by simp
  qed
  then show ?case using Cons assms(1) by (subst replace_from.simps) simp
qed

lemma four_digits_value:
  "10 * (10 * (10 * (y div 1000) + y div 100 mod 10) + y div 10 mod 10) + y mod 10 = (y::nat)"
proof -
  have e: "y div 10 div 10 = y div 100" "y div 100 div 10 = y div 1000"
    by (simp_all add: div_mult2_eq [symmetric])
  have s3: "10 * (y div 1000) + y div 100 mod 10 = y div 100"
    using mult_div_mod_eq [of 10 "y div 100"] by (simp add: e)
  have s2: "10 * (y div 100) + y div 10 mod 10 = y div 10"
    using mult_div_mod_eq [of 10 "y div 10"] by (simp add: e)
  have s1: "10 * (y div 10) + y mod 10 = y"
    by simp
  show ?thesis by (simp only: s3 s2 s1)
qed

lemma digit_char_not_Z: "k < 10 \<Longrightarrow> digit_char k \<noteq> CHR ''Z'' \<and> CHR ''Z'' \<noteq> digit_char k"
  using digit_char_neq [of k "CHR ''Z''"] by auto

lemma digit_char_not_plus: "k < 10 \<Longrightarrow> digit_char k \<noteq> CHR ''+'' \<and> CHR ''+'' \<noteq> digit_char k"
  using digit_char_neq [of k "CHR ''+''"] by auto

lemma iso_to_datetime_suffix_Z:
  assumes "CHR ''Z'' \<notin> set b" and "CHR ''+'' \<notin> set b"
  shows "iso_to_datetime other (JStr (b @ ''Z'')) = Inr (fromisoformat other b)"
proof -
  have 1: "replace (b @ ''Z'') ''Z'' ''+00:00'' = b @ ''+00:00''"
    using replace_from_suffix [of "''Z''" b "''+00:00''"] assms(1) by (simp add: replace_def)
  have 2: "replace (b @ ''+00:00'') ''+00:00'' [] = b"
    using replace_from_suffix [of "''+00:00''" b "[]"] assms(2) by (simp add: replace_def)
  show ?thesis by (simp add: iso_to_datetime_def 1 2)
qed

lemma fromisoformat_digits:
  assumes "y1 < 10" "y2 < 10" "y3 < 10" "y4 < 10" "m1 < 10" "m2 < 10" "d1 < 10" "d2 < 10"
    "h1 < 10" "h2 < 10" "n1 < 10" "n2 < 10" "s1 < 10" "s2 < 10"
  shows "fromisoformat other
           [digit_char y1, digit_char y2, digit_char y3, digit_char y4, CHR ''-'',
            digit_char m1, digit_char m2, CHR ''-'', digit_char d1, digit_char d2, CHR ''T'',
            digit_char h1, digit_char h2, CHR '':'', digit_char n1, digit_char n2, CHR '':'',
            digit_char s1, digit_char s2, CHR ''.'', CHR ''0'', CHR ''0'', CHR ''0''] =
         (let dt = \<lparr>year = 10 * (10 * (10 * y1 + y2) + y3) + y4, month = 10 * m1 + m2,
                    day = 10 * d1 + d2, hour = 10 * h1 + h2, minute = 10 * n1 + n2,
                    second = 10 * s1 + s2, microsecond = 0\<rparr>
          in if valid_datetime dt then Some dt else None)"
proof -
  have z: "digit_value CHR ''0'' = Some 0" by (simp add: digit_value_def)
  show ?thesis
    using assms
    by (simp add: fromisoformat_def iso_layout_def parse_nat_def digit_value_digit_char z Let_def)
qed

lemma two_digits_value: "n < 100 \<Longrightarrow> 10 * (n div 10 mod 10) + n mod 10 = (n::nat)"
  by simp

lemma iso_to_datetime_strftime:
  assumes v: "valid_datetime t" and y: "1000 \<le> year t"
  shows "iso_to_datetime other (JStr (strftime_iso t)) = Inr (Some (t\<lparr>microsecond := 0\<rparr>))"
proof -
  define y1 y2 y3 y4 where "y1 = year t div 1000" and "y2 = year t div 100 mod 10"
    and "y3 = year t div 10 mod 10" and "y4 = year t mod 10"
  define m1 m2 d1 d2 where "m1 = month t div 10 mod 10" and "m2 = month t mod 10"
    and "d1 = day t div 10 mod 10" and "d2 = day t mod 10"
  define h1 h2 n1 n2 where "h1 = hour t div 10 mod 10" and "h2 = hour t mod 10"
    and "n1 = minute t div 10 mod 10" and "n2 = minute t mod 10"
  define s1 s2 where "s1 = second t div 10 mod 10" and "s2 = second t mod 10"
  define b where "b =
     [digit_char y1, digit_char y2, digit_char y3, digit_char y4, CHR ''-'',
      digit_char m1, digit_char m2, CHR ''-'', digit_char d1, digit_char d2, CHR ''T'',
      digit_char h1, digit_char h2, CHR '':'', digit_char n1, digit_char n2, CHR '':'',
      digit_char s1, digit_char s2, CHR ''.'', CHR ''0'', CHR ''0'', CHR ''0'']"
  have yr: "year t \<le> 9999" and mo: "month t < 100" and da: "day t < 100"
    and ho: "hour t < 100" and mi: "minute t < 100" and se: "second t < 100"
    using v by (auto simp add: valid_datetime_def days_in_month_def split: if_splits)
  have lt: "y1 < 10" "y2 < 10" "y3 < 10" "y4 < 10" "m1 < 10" "m2 < 10" "d1 < 10" "d2 < 10"
    "h1 < 10" "h2 < 10" "n1 < 10" "n2 < 10" "s1 < 10" "s2 < 10"
    using yr by (simp_all add: y1_def y2_def y3_def y4_def m1_def m2_def d1_def d2_def
                   h1_def h2_def n1_def n2_def s1_def s2_def)
  have str: "strftime_iso t = b @ ''Z''"
    by (simp add: strftime_iso_def str_nat_four [OF y yr] two_digits_def b_def
          y1_def y2_def y3_def y4_def m1_def m2_def d1_def d2_def
          h1_def h2_def n1_def n2_def s1_def s2_def)
  have noZ: "CHR ''Z'' \<notin> set b"
    by (simp add: b_def lt digit_char_not_Z)
  have noP: "CHR ''+'' \<notin> set b"
    by (simp add: b_def lt digit_char_not_plus)
  have vals: "10 * (10 * (10 * y1 + y2) + y3) + y4 = year t" "10 * m1 + m2 = month t"
    "10 * d1 + d2 = day t" "10 * h1 + h2 = hour t" "10 * n1 + n2 = minute t"
    "10 * s1 + s2 = second t"
    unfolding y1_def y2_def y3_def y4_def m1_def m2_def d1_def d2_def
      h1_def h2_def n1_def n2_def s1_def s2_def
    using four_digits_value [of "year t"] two_digits_value [OF mo] two_digits_value [OF da]
      two_digits_value [OF ho] two_digits_value [OF mi] two_digits_value [OF se]
    by simp_all
  have rec: "\<lparr>year = year t, month = month t, day = day t, hour = hour t, minute = minute t,
              second = second t, microsecond = 0\<rparr> = t\<lparr>microsecond := 0\<rparr>"
    by simp
  have v0: "valid_datetime (t\<lparr>microsecond := 0\<rparr>)"
    using v by (simp add: valid_datetime_def)
  have "fromisoformat other b = Some (t\<lparr>microsecond := 0\<rparr>)"
    unfolding b_def
    by (simp only: fromisoformat_digits [OF lt] vals rec Let_def v0 if_True)
  then show ?thesis
    by (simp only: str iso_to_datetime_suffix_Z [OF noZ noP])
qed

lemma load_save_checkpoint:
  assumes "valid_datetime now" and "1000 \<le> year now"
    and "\<forall>t. timestamp c = Some t \<longrightarrow> valid_datetime t \<and> 1000 \<le> year t"
  shows "load_checkpoint other (save_checkpoint c now) =
           Inr (Some (c\<lparr>timestamp :=
                         Some ((case timestamp c of Some t \<Rightarrow> t | None \<Rightarrow> now)\<lparr>microsecond := 0\<rparr>)\<rparr>))"
proof -
  define t where "t = (case timestamp c of Some t \<Rightarrow> t | None \<Rightarrow> now)"
  have v: "valid_datetime t" "1000 \<le> year t"
    using assms by (auto simp add: t_def split: option.splits)
  have iso: "iso_to_datetime other (JStr (strftime_iso t)) = Inr (Some (t\<lparr>microsecond := 0\<rparr>))"
    using iso_to_datetime_strftime [OF v] .
  have "load_checkpoint other (save_checkpoint c now) =
          Inr (Some \<lparr>last_processed_index = last_processed_index c,
                     synced_ratings = synced_ratings c, synced_history = synced_history c,
                     checkpoint_errors = checkpoint_errors c,
                     timestamp = Some (t\<lparr>microsecond := 0\<rparr>)\<rparr>)"
    by (simp add: load_checkpoint_def save_checkpoint_def datetime_to_iso_def and_then_def iso
          t_def [symmetric])
  then show ?thesis by (simp add: t_def)
qed

lemma valid_2023_04_15: "valid_datetime (dt_2023_04_15\<lparr>hour := 12\<rparr>) \<and> 1000 \<le> year dt_2023_04_15"
  by (simp add: valid_datetime_def dt_2023_04_15_def days_in_month_def is_leap_def)

lemma valid_2024_01_01: "valid_datetime dt_2024_01_01 \<and> 1000 \<le> year dt_2024_01_01"
  by (simp add: valid_datetime_def dt_2024_01_01_def days_in_month_def is_leap_def)

text \<open>
  C8, as the code has it. Saving a checkpoint and loading the file gives back the
  four fields \<open>last_processed_index\<close>, \<open>synced_ratings\<close>, \<open>synced_history\<close> and \<open>errors\<close>
  unchanged, and as timestamp the saved one without its microseconds, or the time of the
  save when the checkpoint had none. So a checkpoint whose timestamp is present and has
  no microseconds round-trips unchanged. (Timestamps are valid dates of the years 1000
  to 9999.)
\<close>

theorem checkpoint_round_trip:
  assumes "valid_datetime now" and "1000 \<le> year now"
    and "\<forall>t. timestamp c = Some t \<longrightarrow> valid_datetime t \<and> 1000 \<le> year t"
  shows "load_checkpoint other (save_checkpoint c now) =
           Inr (Some (c\<lparr>timestamp :=
                         Some ((case timestamp c of Some t \<Rightarrow> t | None \<Rightarrow> now)\<lparr>microsecond := 0\<rparr>)\<rparr>)) \<and>
         (\<forall>t. timestamp c = Some t \<and> microsecond t = 0 \<longrightarrow>
              load_checkpoint other (save_checkpoint c now) = Inr (Some c))"
proof -
  have a: "load_checkpoint other (save_checkpoint c now) =
           Inr (Some (c\<lparr>timestamp :=
                         Some ((case timestamp c of Some t \<Rightarrow> t | None \<Rightarrow> now)\<lparr>microsecond := 0\<rparr>)\<rparr>))"
    using load_save_checkpoint [OF assms] .
  have "load_checkpoint other (save_checkpoint c now) = Inr (Some c)"
    if "timestamp c = Some t" and "microsecond t = 0" for t
  proof -
    have "t\<lparr>microsecond := 0\<rparr> = t" using that(2) by simp
    then have "c\<lparr>timestamp := Some (t\<lparr>microsecond := 0\<rparr>)\<rparr> = c" using that(1) by simp
    then show ?thesis using a that(1) by simp
  qed
  with a show ?thesis by blast
qed

theorem checkpoint_round_trip_witness:
  "load_checkpoint (\<lambda>s. None) (save_checkpoint test_checkpoint dt_2024_01_01) = Inr (Some test_checkpoint)"
proof -
  have "\<forall>t. timestamp test_checkpoint = Some t \<longrightarrow> valid_datetime t \<and> 1000 \<le> year t"
    using valid_2023_04_15 by (simp add: test_checkpoint_def)
  from checkpoint_round_trip [OF valid_2024_01_01 [THEN conjunct1] valid_2024_01_01 [THEN conjunct2] this]
  show ?thesis
    by (simp add: test_checkpoint_def dt_2023_04_15_def)
qed

text \<open>
  The claim as stated fails for the checkpoint it names: with
  \<open>last_processed_index = 10\<close>, \<open>synced_ratings = [1, 2, 3]\<close> and no timestamp, the
  loaded checkpoint carries the time of the save.
\<close>

theorem checkpoint_without_timestamp_changes:
  "timestamp spec_checkpoint = None \<and>
   load_checkpoint (\<lambda>s. None) (save_checkpoint spec_checkpoint dt_2024_01_01) =
     Inr (Some (spec_checkpoint\<lparr>timestamp := Some dt_2024_01_01\<rparr>)) \<and>
   load_checkpoint (\<lambda>s. None) (save_checkpoint spec_checkpoint dt_2024_01_01) \<noteq> Inr (Some spec_checkpoint)"
proof -
  have n: "timestamp spec_checkpoint = None" by (simp add: spec_checkpoint_def)
  then have "\<forall>t. timestamp spec_checkpoint = Some t \<longrightarrow> valid_datetime t \<and> 1000 \<le> year t"
    by simp
  from load_save_checkpoint [OF valid_2024_01_01 [THEN conjunct1] valid_2024_01_01 [THEN conjunct2] this]
  have l: "load_checkpoint (\<lambda>s. None) (save_checkpoint spec_checkpoint dt_2024_01_01) =
             Inr (Some (spec_checkpoint\<lparr>timestamp := Some dt_2024_01_01\<rparr>))"
    by (simp add: n dt_2024_01_01_def)
  have "spec_checkpoint\<lparr>timestamp := Some dt_2024_01_01\<rparr> \<noteq> spec_checkpoint"
    by (simp add: spec_checkpoint_def)
  with n l show ?thesis by simp
qed

subsection \<open>What \<open>load_checkpoint\<close> and a failing batch raise\<close>

























end
